theory Spec2Isabelle
  imports Complex_Main
begin

section \<open>The text layout engine of ezdxf (\<^verbatim>\<open>ezdxf/tools/text_layout.py\<close>)\<close>

text \<open>
  The Python module is embedded function by function. A Python exception is a value of
  type \<open>error\<close> and a function that may raise returns \<open>error + 'a\<close> (\<open>Inl\<close> the
  exception). Python's \<open>None\<close> is the \<open>None\<close> of an option type wherever the source can
  produce it. The floats of the source are modelled by their values, which are real
  numbers, and \<open>+\<close> and \<open>-\<close> are the exact operations; where the rounding of a sum of
  floats decides a statement, the sum is \<open>float_add\<close>.
\<close>

subsection \<open>Exceptions\<close>

datatype error =
    ValueError string
  | TypeError string
  | AttributeError string

type_synonym 'a result = "error + 'a"

text \<open>Sequencing of two computations that may raise: the first exception wins.\<close>

definition bind_result :: "'a result \<Rightarrow> ('a \<Rightarrow> 'b result) \<Rightarrow> 'b result" where
  "bind_result r f = (case r of Inl e \<Rightarrow> Inl e | Inr v \<Rightarrow> f v)"

subsection \<open>Margins\<close>

type_synonym Tuple4f = "real \<times> real \<times> real \<times> real"
type_synonym Tuple2f = "real \<times> real"

text \<open>
  \<^verbatim>\<open>resolve_margins(margins)\<close>: the argument is \<open>None\<close> or a sequence. The chain of
  \<^verbatim>\<open>if/elif\<close> has no \<^verbatim>\<open>else\<close>: for every other length the function falls off its end and
  returns Python's \<open>None\<close>.
\<close>

definition resolve_margins :: "real list option \<Rightarrow> Tuple4f option" where
  "resolve_margins margins =
     (case margins of
        None \<Rightarrow> Some (0, 0, 0, 0)
      | Some ms \<Rightarrow>
          (let count = length ms in
           if count = 4 then Some (ms ! 0, ms ! 1, ms ! 2, ms ! 3)
           else if count = 3 then Some (ms ! 0, ms ! 1, ms ! 2, ms ! 1)
           else if count = 2 then Some (ms ! 0, ms ! 1, ms ! 0, ms ! 1)
           else if count = 1 then Some (ms ! 0, ms ! 0, ms ! 0, ms ! 0)
           else None))"

text \<open>\<^verbatim>\<open>insert_location(align, width, height)\<close>\<close>

definition insert_location :: "int \<Rightarrow> real \<Rightarrow> real \<Rightarrow> Tuple2f" where
  "insert_location align width height =
     (let left = 0; top = 0; center = width / 2; middle = height / 2 in
      if align = 1 then (left, top)
      else if align = 2 then (- center, 0)
      else if align = 3 then (- width, 0)
      else if align = 4 then (0, middle)
      else if align = 5 then (- center, middle)
      else if align = 6 then (- width, middle)
      else if align = 7 then (0, height)
      else if align = 8 then (- center, height)
      else if align = 9 then (- width, height)
      else (left, top))"

subsection \<open>Cells\<close>

text \<open>
  The concrete cell classes of the module. \<open>Leading\<close> is the line separator of the module's
  documentation; it stands for every cell class that is neither in \<^verbatim>\<open>_content\<close> nor in
  \<^verbatim>\<open>_glue\<close>.
\<close>

datatype cell_class = Space | SoftHyphen | NonBreakingSpace | Tab | Text | Fraction | Leading

text \<open>An external \<^verbatim>\<open>ContentRenderer\<close> object is an opaque reference.\<close>

type_synonym renderer = nat

text \<open>
  A glue cell has the attributes \<^verbatim>\<open>_width\<close> and \<^verbatim>\<open>_min_width\<close>; a content cell has
  \<^verbatim>\<open>_final_x\<close>, \<^verbatim>\<open>_final_y\<close>, \<^verbatim>\<open>_width\<close>, \<^verbatim>\<open>_height\<close> and \<^verbatim>\<open>_renderer\<close>.
\<close>

record cell =
  cell_type :: cell_class
  cell_final_x :: "real option"
  cell_final_y :: "real option"
  cell_width :: real
  cell_min_width :: real
  cell_height :: real
  cell_renderer :: "renderer option"

definition content_types :: "cell_class set" where
  "content_types = {Text, Fraction}"

definition glue_types :: "cell_class set" where
  "glue_types = {Space, NonBreakingSpace, SoftHyphen, Tab}"

text \<open>\<^verbatim>\<open>ContentCell.__init__\<close> for the class \<open>cls\<close> (\<open>Text\<close> or \<open>Fraction\<close>).\<close>

definition ContentCell_init :: "cell_class \<Rightarrow> real \<Rightarrow> real \<Rightarrow> renderer \<Rightarrow> cell" where
  "ContentCell_init cls width height renderer =
     \<lparr> cell_type = cls, cell_final_x = None, cell_final_y = None, cell_width = width,
       cell_min_width = 0, cell_height = height, cell_renderer = Some renderer \<rparr>"

text \<open>\<^verbatim>\<open>Glue.__init__\<close> followed by \<^verbatim>\<open>resize(width)\<close>.\<close>

definition Glue_init :: "cell_class \<Rightarrow> real \<Rightarrow> real \<Rightarrow> cell" where
  "Glue_init cls width min_width =
     \<lparr> cell_type = cls, cell_final_x = None, cell_final_y = None,
       cell_width = max width min_width, cell_min_width = min_width, cell_height = 0,
       cell_renderer = None \<rparr>"

definition ContentCell_place :: "real \<Rightarrow> real \<Rightarrow> cell \<Rightarrow> cell" where
  "ContentCell_place x y self = self\<lparr> cell_final_x := Some x, cell_final_y := Some y \<rparr>"

definition ContentCell_final_location :: "cell \<Rightarrow> real option \<times> real option" where
  "ContentCell_final_location self = (cell_final_x self, cell_final_y self)"

subsection \<open>Normalisation of a cell sequence\<close>

text \<open>\<^verbatim>\<open>prev in _content\<close>, where \<open>prev\<close> is a class or \<open>None\<close>.\<close>

definition in_content :: "cell_class option \<Rightarrow> bool" where
  "in_content t = (case t of None \<Rightarrow> False | Some c \<Rightarrow> c \<in> content_types)"

text \<open>The local function \<^verbatim>\<open>peek\<close>: the class of the next cell, \<open>None\<close> on \<^verbatim>\<open>IndexError\<close>.\<close>

definition peek :: "cell list \<Rightarrow> nat \<Rightarrow> cell_class option" where
  "peek cells index =
     (if index + 1 < length cells then Some (cell_type (cells ! (index + 1))) else None)"

text \<open>
  The \<^verbatim>\<open>for index, cell in enumerate(cells)\<close> loop, with its variables \<open>prev\<close> and
  \<open>content\<close>; \<^verbatim>\<open>continue\<close> goes on with both unchanged.
\<close>

fun normalize_loop ::
  "cell list \<Rightarrow> (nat \<times> cell) list \<Rightarrow> cell_class option \<Rightarrow> cell list \<Rightarrow> cell list result" where
  "normalize_loop cells [] prev content = Inr content"
| "normalize_loop cells ((index, cell) # rest) prev content =
     (let current = cell_type cell in
      if current \<in> content_types then
        (if in_content prev then Inl (ValueError ''no glue between content cells'')
         else normalize_loop cells rest (Some current) (content @ [cell]))
      else if current = SoftHyphen \<and> prev = Some SoftHyphen then
        normalize_loop cells rest prev content
      else if current = SoftHyphen \<and> (\<not> in_content prev \<or> \<not> in_content (peek cells index)) then
        normalize_loop cells rest prev content
      else normalize_loop cells rest (Some current) (content @ [cell]))"

text \<open>\<^verbatim>\<open>while content and (type(content[-1]) in _glue): content.pop()\<close>\<close>

function remove_pending_glue :: "cell list \<Rightarrow> cell list" where
  "remove_pending_glue content =
     (if content \<noteq> [] \<and> cell_type (last content) \<in> glue_types
      then remove_pending_glue (butlast content) else content)"
  by pat_completeness auto
termination
  by (relation "measure length") auto

definition normalize_cells :: "cell list \<Rightarrow> cell list result" where
  "normalize_cells cells =
     bind_result (normalize_loop cells (enumerate 0 cells) None [])
       (\<lambda>content. Inr (remove_pending_glue content))"


subsection \<open>Containers\<close>

text \<open>
  The attributes set by \<^verbatim>\<open>Container.__init__\<close>; an attribute \<^verbatim>\<open>_name\<close> of the source is
  the field \<open>p_name\<close>. The records of the subclasses extend this one, so a function on
  \<open>'a container_scheme\<close> is a method that every subclass inherits.
\<close>

record container =
  p_final_x :: "real option"
  p_final_y :: "real option"
  p_content_width :: "real option"
  p_content_height :: "real option"
  p_margins :: "Tuple4f option"
  p_render :: "renderer option"

definition Container_init ::
  "real option \<Rightarrow> real option \<Rightarrow> real list option \<Rightarrow> renderer option \<Rightarrow> container" where
  "Container_init width height margins render =
     \<lparr> p_final_x = None, p_final_y = None, p_content_width = width,
       p_content_height = height, p_margins = resolve_margins margins, p_render = render \<rparr>"

definition is_placed :: "'a container_scheme \<Rightarrow> bool" where
  "is_placed self = (p_final_x self \<noteq> None \<and> p_final_y self \<noteq> None)"

definition Container_final_location :: "'a container_scheme \<Rightarrow> Tuple2f result" where
  "Container_final_location self =
     (if \<not> is_placed self then Inl (ValueError ''Container is not placed.'')
      else Inr (the (p_final_x self), the (p_final_y self)))"

text \<open>
  The margin properties read \<^verbatim>\<open>self._margins[i]\<close>; when \<^verbatim>\<open>resolve_margins\<close> has returned
  \<open>None\<close> the subscript raises \<^verbatim>\<open>TypeError\<close>.
\<close>

definition subscript_margins :: "'a container_scheme \<Rightarrow> (Tuple4f \<Rightarrow> real) \<Rightarrow> real result" where
  "subscript_margins self get =
     (case p_margins self of
        None \<Rightarrow> Inl (TypeError ''NoneType object is not subscriptable'')
      | Some ms \<Rightarrow> Inr (get ms))"

definition top_margin :: "'a container_scheme \<Rightarrow> real result" where
  "top_margin self = subscript_margins self (\<lambda>(t, r, b, l). t)"

definition right_margin :: "'a container_scheme \<Rightarrow> real result" where
  "right_margin self = subscript_margins self (\<lambda>(t, r, b, l). r)"

definition bottom_margin :: "'a container_scheme \<Rightarrow> real result" where
  "bottom_margin self = subscript_margins self (\<lambda>(t, r, b, l). b)"

definition left_margin :: "'a container_scheme \<Rightarrow> real result" where
  "left_margin self = subscript_margins self (\<lambda>(t, r, b, l). l)"

definition Container_content_width :: "'a container_scheme \<Rightarrow> real" where
  "Container_content_width self =
     (case p_content_width self of None \<Rightarrow> 0 | Some w \<Rightarrow> w)"

definition Container_content_height :: "'a container_scheme \<Rightarrow> real" where
  "Container_content_height self =
     (case p_content_height self of None \<Rightarrow> 0 | Some h \<Rightarrow> h)"

definition has_flex_height :: "'a container_scheme \<Rightarrow> bool" where
  "has_flex_height self = (p_content_height self = None)"

text \<open>Python's \<open>a + b\<close> for a first operand that may be \<open>None\<close>.\<close>

definition py_add :: "real option \<Rightarrow> real \<Rightarrow> real result" where
  "py_add a b =
     (case a of
        None \<Rightarrow> Inl (TypeError ''unsupported operand type(s) for +: NoneType and float'')
      | Some v \<Rightarrow> Inr (v + b))"

text \<open>
  Python's \<open>a + b + c\<close>: the operands are evaluated from left to right and the first
  exception wins.
\<close>

definition py_add3 :: "real option result \<Rightarrow> real result \<Rightarrow> real result \<Rightarrow> real result" where
  "py_add3 a b c =
     bind_result a (\<lambda>x. bind_result b (\<lambda>y. bind_result (py_add x y) (\<lambda>s.
       bind_result c (\<lambda>z. Inr (s + z)))))"

text \<open>
  \<^verbatim>\<open>Container.total_width\<close> is \<^verbatim>\<open>self.content_width + self.right_margin + self.left_margin\<close>
  and \<^verbatim>\<open>Container.total_height\<close> is
  \<^verbatim>\<open>self.content_height + self.top_margin + self.bottom_margin\<close>. The properties
  \<^verbatim>\<open>content_width\<close> and \<^verbatim>\<open>content_height\<close> are looked up in the class of \<open>self\<close>, which may
  override them: their values there are the first argument.
\<close>

definition Container_total_width :: "real option result \<Rightarrow> 'a container_scheme \<Rightarrow> real result" where
  "Container_total_width content_width self =
     py_add3 content_width (right_margin self) (left_margin self)"

definition Container_total_height :: "real result \<Rightarrow> 'a container_scheme \<Rightarrow> real result" where
  "Container_total_height content_height self =
     py_add3 (bind_result content_height (\<lambda>h. Inr (Some h))) (top_margin self) (bottom_margin self)"

text \<open>
  \<^verbatim>\<open>Container.place(x, y)\<close> records the location and calls \<^verbatim>\<open>self.place_content()\<close>, an
  abstract method: the \<open>place_content\<close> of the class of \<open>self\<close> is the first argument.
\<close>

definition Container_place ::
  "('a container_scheme \<Rightarrow> 'a container_scheme result) \<Rightarrow> real \<Rightarrow> real \<Rightarrow>
     'a container_scheme \<Rightarrow> 'a container_scheme result" where
  "Container_place place_content x y self =
     place_content (self\<lparr> p_final_x := Some x, p_final_y := Some y \<rparr>)"

text \<open>
  Rendering. The transformation matrix is external and only passed on. A call
  \<^verbatim>\<open>renderer.render(left, bottom, right, top, m)\<close> of an external renderer is recorded as a
  \<open>draw\<close> value.
\<close>

typedecl Matrix44

datatype draw = RenderCall renderer real real real real "Matrix44 option"

text \<open>
  \<^verbatim>\<open>Container.render_background(m)\<close>; the keyword arguments are evaluated in the order
  \<^verbatim>\<open>left, bottom, top, right\<close>, so \<^verbatim>\<open>total_height\<close> is read before \<^verbatim>\<open>total_width\<close>. The result is
  \<open>None\<close> without a renderer.
\<close>

definition Container_render_background ::
  "real result \<Rightarrow> real result \<Rightarrow> 'a container_scheme \<Rightarrow> Matrix44 option \<Rightarrow> draw option result" where
  "Container_render_background total_width total_height self m =
     bind_result (Container_final_location self) (\<lambda>(x, y).
       case p_render self of
         None \<Rightarrow> Inr None
       | Some r \<Rightarrow>
           bind_result total_height (\<lambda>h. bind_result total_width (\<lambda>w.
             Inr (Some (RenderCall r x (y - h) (x + w) y m)))))"

text \<open>
  \<^verbatim>\<open>Container.render(m)\<close> is a generator function. A call runs nothing of its body, whatever
  the state of the container is: it returns a generator object, which holds the reference
  \<open>self\<close> and the argument \<open>m\<close>. The objects of the model are passed as states, so the
  generator records \<open>m\<close> only.
\<close>

datatype render_generator = RenderGenerator "Matrix44 option"

definition Container_render :: "'a container_scheme \<Rightarrow> Matrix44 option \<Rightarrow> render_generator result" where
  "Container_render self m = Inr (RenderGenerator m)"

text \<open>
  The body of \<^verbatim>\<open>Container.render\<close> runs when the generator is consumed, on the state that
  the container has then. \<open>Container_render_consume\<close> is the outcome of consuming the
  generator to its end in the state \<open>self\<close>: the list of the values it yields, or the
  exception that ends it. The sizes, \<^verbatim>\<open>place_content\<close> and \<^verbatim>\<open>render_content\<close> of the class of
  \<open>self\<close> are arguments. No subclass of the module overrides \<^verbatim>\<open>render\<close>,
  \<^verbatim>\<open>final_location\<close> or \<^verbatim>\<open>is_placed\<close>.
\<close>

definition Container_render_consume ::
  "real result \<Rightarrow> real result \<Rightarrow>
   ('a container_scheme \<Rightarrow> 'a container_scheme result) \<Rightarrow>
   ('a container_scheme \<Rightarrow> Matrix44 option \<Rightarrow> draw option list result) \<Rightarrow>
   render_generator \<Rightarrow> 'a container_scheme \<Rightarrow> draw option list result" where
  "Container_render_consume total_width total_height place_content render_content g self =
     (case g of RenderGenerator m \<Rightarrow>
        if \<not> is_placed self then Inl (ValueError ''Layout has to be placed before rendering'')
        else
          bind_result
            (if p_render self \<noteq> None
             then bind_result (Container_render_background total_width total_height self m)
                    (\<lambda>d. Inr [d])
             else Inr [])
            (\<lambda>background.
               bind_result (place_content self) (\<lambda>self'.
                 bind_result (render_content self' m) (\<lambda>ds. Inr (background @ ds)))))"

subsection \<open>Line\<close>

text \<open>
  \<^verbatim>\<open>Line\<close> defines \<^verbatim>\<open>__init__\<close> and \<^verbatim>\<open>__iter__\<close> only and leaves \<^verbatim>\<open>place_content\<close>, an
  abstract method of \<^verbatim>\<open>Container\<close>, without an implementation. \<^verbatim>\<open>Box\<close> derives from
  \<^verbatim>\<open>abc.ABC\<close>, so the call \<^verbatim>\<open>Line(...)\<close> raises \<^verbatim>\<open>TypeError\<close> before \<^verbatim>\<open>__init__\<close> runs: no
  object of the class exists. The record is the type of the elements of
  \<^verbatim>\<open>FlowText._lines\<close>.
\<close>

record line = container +
  line_align :: int
  line_cells :: "cell list"

definition abstract_class_Line :: error where
  "abstract_class_Line =
     TypeError ''Cannot instantiate abstract class Line with abstract method place_content''"

definition Line_init ::
  "real option \<Rightarrow> int \<Rightarrow> real list option \<Rightarrow> renderer option \<Rightarrow> line result" where
  "Line_init width align margins render = Inl abstract_class_Line"

subsection \<open>Paragraphs: FlowText\<close>

text \<open>
  \<^verbatim>\<open>Paragraph\<close> and \<^verbatim>\<open>BulletList\<close> leave \<^verbatim>\<open>distribute_content\<close> abstract; \<^verbatim>\<open>FlowText\<close> is the
  paragraph class that has instances.
\<close>

record flowtext = container +
  ft_align :: int
  ft_indent_first :: real
  ft_indent_left :: real
  ft_indent_right :: real
  ft_line_spacing :: real
  ft_tab_stops :: "real list"
  ft_cells :: "cell list"
  ft_lines :: "line list"

definition FlowText_init ::
  "real option \<Rightarrow> int \<Rightarrow> real \<times> real \<times> real \<Rightarrow> real \<Rightarrow> real list option \<Rightarrow>
     real list option \<Rightarrow> renderer option \<Rightarrow> flowtext result" where
  "FlowText_init width align indent line_spacing tab_stops margins render =
     (if \<not> (0 \<le> align \<and> align < 5) then Inl (ValueError ''invalid paragraph alignment (0-4)'')
      else case indent of (first, left, right) \<Rightarrow>
        Inr (container.extend (Container_init width None margins render)
          \<lparr> ft_align = align, ft_indent_first = first, ft_indent_left = left,
            ft_indent_right = right, ft_line_spacing = line_spacing,
            ft_tab_stops = (case tab_stops of None \<Rightarrow> [] | Some ts \<Rightarrow> ts),
            ft_cells = [], ft_lines = [] \<rparr>))"

definition FlowText_total_width :: "flowtext \<Rightarrow> real result" where
  "FlowText_total_width self =
     Container_total_width (Inr (Some (Container_content_width self))) self"

definition FlowText_total_height :: "flowtext \<Rightarrow> real result" where
  "FlowText_total_height self =
     Container_total_height (Inr (Container_content_height self)) self"

text \<open>
  The loop of \<^verbatim>\<open>FlowText.place_content\<close> over \<^verbatim>\<open>_lines\<close>, which calls \<^verbatim>\<open>line.place(x, y)\<close> and
  moves the cursor by \<^verbatim>\<open>line.total_height\<close>. No line can be constructed and no method of
  the module assigns or extends \<^verbatim>\<open>_lines\<close> after \<^verbatim>\<open>__init__\<close>, so the list is empty
  whenever the loop runs and its body is never executed. For a list that is not empty
  the model has no placement: it gives the \<^verbatim>\<open>TypeError\<close> that refuses the construction of
  a line.
\<close>

definition place_lines :: "real \<Rightarrow> real \<Rightarrow> line list \<Rightarrow> line list result" where
  "place_lines x y lines =
     (case lines of [] \<Rightarrow> Inr [] | line # _ \<Rightarrow> Inl abstract_class_Line)"

definition FlowText_place_content :: "flowtext \<Rightarrow> flowtext result" where
  "FlowText_place_content self =
     bind_result (Container_final_location self) (\<lambda>(x, y).
     bind_result (left_margin self) (\<lambda>lm.
     bind_result (top_margin self) (\<lambda>tm.
     bind_result (place_lines (x + lm) (y - tm) (ft_lines self)) (\<lambda>lines.
       Inr (self\<lparr> ft_lines := lines \<rparr>)))))"

definition FlowText_place :: "real \<Rightarrow> real \<Rightarrow> flowtext \<Rightarrow> flowtext result" where
  "FlowText_place x y self = Container_place FlowText_place_content x y self"

text \<open>
  \<^verbatim>\<open>FlowText.distribute_content(height)\<close>: the body is a docstring, a comment and \<^verbatim>\<open>pass\<close>.
  The paragraph is unchanged and the value returned is Python's \<open>None\<close>.
\<close>

definition FlowText_distribute_content ::
  "flowtext \<Rightarrow> real option \<Rightarrow> flowtext \<times> cell list option" where
  "FlowText_distribute_content self height = (self, None)"

definition FlowText_append_content :: "flowtext \<Rightarrow> cell list \<Rightarrow> flowtext" where
  "FlowText_append_content self content = self\<lparr> ft_cells := ft_cells self @ content \<rparr>"

text \<open>
  \<^verbatim>\<open>p.freeze()\<close>, as \<^verbatim>\<open>Column.append_paragraphs\<close> calls it: no class of the module defines an
  attribute \<^verbatim>\<open>freeze\<close> (not \<^verbatim>\<open>FlowText\<close>, \<^verbatim>\<open>Paragraph\<close>, \<^verbatim>\<open>Container\<close>, \<^verbatim>\<open>RenderBox\<close> or
  \<^verbatim>\<open>Box\<close>), so the attribute lookup raises.
\<close>

definition freeze :: "flowtext \<Rightarrow> flowtext result" where
  "freeze p = Inl (AttributeError ''FlowText object has no attribute freeze'')"

subsection \<open>Column\<close>

record column = container +
  col_gutter :: real
  col_paragraphs :: "flowtext list"

definition Column_init ::
  "real option \<Rightarrow> real option \<Rightarrow> real \<Rightarrow> real list option \<Rightarrow> renderer option \<Rightarrow> column" where
  "Column_init width height gutter margins render =
     container.extend (Container_init width height margins render)
       \<lparr> col_gutter = gutter, col_paragraphs = [] \<rparr>"

text \<open>
  Python's \<^verbatim>\<open>sum(f(v) for v in vs)\<close>: the items are computed in order and added to the
  running total, which starts at 0; the first exception ends the sum.
\<close>

fun sum_from :: "real \<Rightarrow> ('a \<Rightarrow> real result) \<Rightarrow> 'a list \<Rightarrow> real result" where
  "sum_from acc f [] = Inr acc"
| "sum_from acc f (v # vs) =
     (case f v of Inl e \<Rightarrow> Inl e | Inr w \<Rightarrow> sum_from (acc + w) f vs)"

definition py_sum :: "('a \<Rightarrow> real result) \<Rightarrow> 'a list \<Rightarrow> real result" where
  "py_sum f vs = sum_from 0 f vs"

definition max_content_height :: "column \<Rightarrow> real option" where
  "max_content_height self = p_content_height self"

definition used_content_height :: "column \<Rightarrow> real result" where
  "used_content_height self = py_sum FlowText_total_height (col_paragraphs self)"

definition Column_content_height :: "column \<Rightarrow> real result" where
  "Column_content_height self =
     (case max_content_height self of
        None \<Rightarrow> used_content_height self
      | Some max_height \<Rightarrow> Inr max_height)"

definition Column_total_width :: "column \<Rightarrow> real result" where
  "Column_total_width self =
     Container_total_width (Inr (Some (Container_content_width self))) self"

definition Column_total_height :: "column \<Rightarrow> real result" where
  "Column_total_height self = Container_total_height (Column_content_height self) self"

definition has_free_space :: "column \<Rightarrow> bool result" where
  "has_free_space self =
     (case max_content_height self of
        None \<Rightarrow> Inr True
      | Some max_height \<Rightarrow> bind_result (used_content_height self) (\<lambda>used. Inr (used < max_height)))"

text \<open>
  \<^verbatim>\<open>Column.clone_empty\<close>: the keyword arguments are evaluated in the order they are written.
  The height passed on is the property \<^verbatim>\<open>content_height\<close>, a number also for a column of
  flexible height.
\<close>

definition clone_empty :: "column \<Rightarrow> column result" where
  "clone_empty self =
     bind_result (Column_content_height self) (\<lambda>height.
     bind_result (top_margin self) (\<lambda>tm.
     bind_result (right_margin self) (\<lambda>rm.
     bind_result (bottom_margin self) (\<lambda>bm.
     bind_result (left_margin self) (\<lambda>lm.
       Inr (Column_init (Some (Container_content_width self)) (Some height) (col_gutter self)
              (Some [tm, rm, bm, lm]) (p_render self)))))))"

text \<open>The loop of \<^verbatim>\<open>Column.place_content\<close> over the paragraphs.\<close>

fun place_paragraphs :: "real \<Rightarrow> real \<Rightarrow> flowtext list \<Rightarrow> flowtext list result" where
  "place_paragraphs x y [] = Inr []"
| "place_paragraphs x y (p # ps) =
     (case FlowText_place x y p of
        Inl e \<Rightarrow> Inl e
      | Inr p' \<Rightarrow>
          (case FlowText_total_height p' of
             Inl e \<Rightarrow> Inl e
           | Inr h \<Rightarrow>
               (case place_paragraphs x (y - h) ps of
                  Inl e \<Rightarrow> Inl e
                | Inr ps' \<Rightarrow> Inr (p' # ps'))))"

definition Column_place_content :: "column \<Rightarrow> column result" where
  "Column_place_content self =
     bind_result (Container_final_location self) (\<lambda>(x, y).
     bind_result (left_margin self) (\<lambda>lm.
     bind_result (top_margin self) (\<lambda>tm.
     bind_result (place_paragraphs (x + lm) (y - tm) (col_paragraphs self)) (\<lambda>ps.
       Inr (self\<lparr> col_paragraphs := ps \<rparr>)))))"

definition Column_place :: "real \<Rightarrow> real \<Rightarrow> column \<Rightarrow> column result" where
  "Column_place x y self = Container_place Column_place_content x y self"

text \<open>
  A generator expression \<^verbatim>\<open>f(v) for v in vs\<close> consumed to its end: the items in order, or
  the first exception.
\<close>

fun map_result :: "('a \<Rightarrow> 'b result) \<Rightarrow> 'a list \<Rightarrow> 'b list result" where
  "map_result f [] = Inr []"
| "map_result f (v # vs) =
     (case f v of
        Inl e \<Rightarrow> Inl e
      | Inr w \<Rightarrow> (case map_result f vs of Inl e \<Rightarrow> Inl e | Inr ws \<Rightarrow> Inr (w # ws)))"

text \<open>
  \<^verbatim>\<open>Column.append_paragraphs(paragraphs)\<close> extends \<^verbatim>\<open>_paragraphs\<close> by
  \<^verbatim>\<open>p.freeze() for p in paragraphs\<close>. The model returns the column as changed and the list
  \<^verbatim>\<open>remainer\<close>, which no branch assigns after \<^verbatim>\<open>remainer = []\<close>. The branch of a column of
  fixed height is \<^verbatim>\<open>pass\<close>.
\<close>

definition Column_append_paragraphs ::
  "column \<Rightarrow> flowtext list \<Rightarrow> (column \<times> flowtext list) result" where
  "Column_append_paragraphs self paragraphs =
     (let remainer = [] in
      if has_flex_height self then
        bind_result (map_result freeze paragraphs) (\<lambda>frozen.
          Inr (self\<lparr> col_paragraphs := col_paragraphs self @ frozen \<rparr>, remainer))
      else Inr (self, remainer))"


subsection \<open>Layout\<close>

record layout = container +
  lay_reference_column_width :: "real option"
  lay_current_column :: nat
  lay_columns :: "column list"

definition Layout_init ::
  "real option \<Rightarrow> real option \<Rightarrow> real list option \<Rightarrow> renderer option \<Rightarrow> layout" where
  "Layout_init width height margins render =
     container.extend (Container_init width height margins render)
       \<lparr> lay_reference_column_width = width, lay_current_column = 0, lay_columns = [] \<rparr>"

text \<open>\<^verbatim>\<open>Layout._calculate_content_width\<close>; \<^verbatim>\<open>self._columns[:-1]\<close> is \<open>butlast\<close>.\<close>

definition calculate_content_width :: "layout \<Rightarrow> real result" where
  "calculate_content_width self =
     bind_result
       (py_sum (\<lambda>c. bind_result (Column_total_width c) (\<lambda>w. Inr (w + col_gutter c)))
          (butlast (lay_columns self)))
       (\<lambda>width.
          if lay_columns self \<noteq> []
          then bind_result (Column_total_width (last (lay_columns self))) (\<lambda>w. Inr (width + w))
          else Inr width)"

text \<open>The property \<^verbatim>\<open>Layout.content_width\<close>; without columns it is \<^verbatim>\<open>_content_width\<close> as it is.\<close>

definition Layout_content_width :: "layout \<Rightarrow> real option result" where
  "Layout_content_width self =
     (if lay_columns self \<noteq> []
      then bind_result (calculate_content_width self) (\<lambda>w. Inr (Some w))
      else Inr (p_content_width self))"

text \<open>Python's \<^verbatim>\<open>max\<close> of the numbers of a sequence.\<close>

fun py_max :: "real list \<Rightarrow> real result" where
  "py_max [] = Inl (ValueError ''max() arg is an empty sequence'')"
| "py_max (v # vs) = Inr (fold max vs v)"

definition calculate_content_height :: "layout \<Rightarrow> real result" where
  "calculate_content_height self =
     bind_result (map_result Column_total_height (lay_columns self)) py_max"

definition Layout_content_height :: "layout \<Rightarrow> real result" where
  "Layout_content_height self =
     (if lay_columns self \<noteq> [] then calculate_content_height self
      else case p_content_height self of None \<Rightarrow> Inr 0 | Some height \<Rightarrow> Inr height)"

definition Layout_total_width :: "layout \<Rightarrow> real result" where
  "Layout_total_width self = Container_total_width (Layout_content_width self) self"

definition Layout_total_height :: "layout \<Rightarrow> real result" where
  "Layout_total_height self = Container_total_height (Layout_content_height self) self"

text \<open>The loop of \<^verbatim>\<open>Layout.place_content\<close> over the columns, with its cursor \<open>x\<close>.\<close>

fun place_columns :: "real \<Rightarrow> real \<Rightarrow> column list \<Rightarrow> column list result" where
  "place_columns x y [] = Inr []"
| "place_columns x y (c # cs) =
     (case Column_place x y c of
        Inl e \<Rightarrow> Inl e
      | Inr c' \<Rightarrow>
          (case Column_total_width c' of
             Inl e \<Rightarrow> Inl e
           | Inr w \<Rightarrow>
               (case place_columns (x + (w + col_gutter c')) y cs of
                  Inl e \<Rightarrow> Inl e
                | Inr cs' \<Rightarrow> Inr (c' # cs'))))"

definition Layout_place_content :: "layout \<Rightarrow> layout result" where
  "Layout_place_content self =
     bind_result (Container_final_location self) (\<lambda>(x, y).
     bind_result (left_margin self) (\<lambda>lm.
     bind_result (top_margin self) (\<lambda>tm.
     bind_result (place_columns (x + lm) (y - tm) (lay_columns self)) (\<lambda>cs.
       Inr (self\<lparr> lay_columns := cs \<rparr>)))))"

text \<open>
  \<^verbatim>\<open>Layout.place(x, y, align)\<close> overrides \<^verbatim>\<open>Container.place\<close> and ends in
  \<^verbatim>\<open>super().place(x + left, y + top)\<close>.
\<close>

definition Layout_place :: "real \<Rightarrow> real \<Rightarrow> int \<Rightarrow> layout \<Rightarrow> layout result" where
  "Layout_place x y align self =
     bind_result (Layout_total_width self) (\<lambda>width.
     bind_result (Layout_total_height self) (\<lambda>height.
       case insert_location align width height of (left, top') \<Rightarrow>
         Container_place Layout_place_content (x + left) (y + top') self))"

text \<open>\<^verbatim>\<open>Layout.add_column\<close>; \<^verbatim>\<open>not width\<close> holds for \<open>None\<close> and for 0.\<close>

definition add_column ::
  "layout \<Rightarrow> real option \<Rightarrow> real option \<Rightarrow> real \<Rightarrow> real list option \<Rightarrow> renderer option \<Rightarrow>
     layout" where
  "add_column self width height gutter margins render =
     (let width' = (if width = None \<or> width = Some 0 then lay_reference_column_width self
                    else width);
          column = Column_init width' height gutter margins render
      in self\<lparr> lay_columns := lay_columns self @ [column] \<rparr>)"

text \<open>
  \<^verbatim>\<open>Layout._new_column\<close>: the column it returns is the last column of the layout it leaves.
\<close>

definition new_column :: "layout \<Rightarrow> layout result" where
  "new_column self =
     (if length (lay_columns self) = 0 then Inl (ValueError ''no column exist'')
      else bind_result (clone_empty (last (lay_columns self))) (\<lambda>empty.
             Inr (self\<lparr> lay_columns := lay_columns self @ [empty] \<rparr>)))"

text \<open>
  The first loop of \<^verbatim>\<open>Layout.append_paragraphs\<close>. The column is changed in place, so the
  list of columns is updated at the cursor. The second component of the result is \<open>None\<close>
  when the loop has left the method by \<^verbatim>\<open>return\<close>, and the remainder when the loop has run
  to its end.
\<close>

function fill_columns :: "layout \<Rightarrow> flowtext list \<Rightarrow> (layout \<times> flowtext list option) result" where
  "fill_columns self remainer =
     (if lay_current_column self < length (lay_columns self) then
        (case Column_append_paragraphs (lay_columns self ! lay_current_column self) remainer of
           Inl e \<Rightarrow> Inl e
         | Inr (column, remainer') \<Rightarrow>
             (let self' = self\<lparr> lay_columns :=
                            (lay_columns self)[lay_current_column self := column] \<rparr>
              in if length remainer' = 0 then Inr (self', None)
                 else fill_columns
                        (self'\<lparr> lay_current_column := lay_current_column self' + 1 \<rparr>) remainer'))
      else Inr (self, Some remainer))"
  by pat_completeness auto
termination
  by (relation "measure (\<lambda>(self, remainer). length (lay_columns self) - lay_current_column self)")
    auto

text \<open>
  The second loop. The new column is the last one of the list and is changed in place.
  Every round appends a column and the loop raises once the cursor is beyond 100, so the
  number of columns bounds the number of rounds.
\<close>

function create_columns :: "layout \<Rightarrow> flowtext list \<Rightarrow> layout result" where
  "create_columns self remainer =
     (if remainer \<noteq> [] then
        (case new_column self of
           Inl e \<Rightarrow> Inl e
         | Inr self1 \<Rightarrow>
             (let self2 = self1\<lparr> lay_current_column := length (lay_columns self1) - 1 \<rparr> in
              case Column_append_paragraphs (last (lay_columns self2)) remainer of
                Inl e \<Rightarrow> Inl e
              | Inr (column, remainer') \<Rightarrow>
                  (let self3 = self2\<lparr> lay_columns := butlast (lay_columns self2) @ [column] \<rparr>
                   in if lay_current_column self3 > 100
                      then Inl (ValueError ''Internal error - not enough space!?'')
                      else create_columns self3 remainer')))
      else Inr self)"
  by pat_completeness auto
termination
proof (relation "measure (\<lambda>(self, remainer). 102 - length (lay_columns self))")
  show "wf (measure (\<lambda>(self, remainer). 102 - length (lay_columns self)))"
    by simp
next
  fix self :: layout and remainer :: "flowtext list" and self1 self2 :: layout
    and x :: "column \<times> flowtext list" and column remainer' and self3 :: layout
  assume new: "new_column self = Inr self1"
    and s2: "self2 = self1\<lparr> lay_current_column := length (lay_columns self1) - 1 \<rparr>"
    and s3: "self3 = self2\<lparr> lay_columns := butlast (lay_columns self2) @ [column] \<rparr>"
    and cap: "\<not> 100 < lay_current_column self3"
  from new have len: "length (lay_columns self1) = Suc (length (lay_columns self))"
    by (auto simp: new_column_def bind_result_def split: if_splits sum.splits)
  from s2 s3 cap len have "length (lay_columns self) \<le> 100"
    by simp
  with s2 s3 len show "((self3, remainer'), (self, remainer))
      \<in> measure (\<lambda>(self, remainer). 102 - length (lay_columns self))"
    by simp
qed

definition Layout_append_paragraphs :: "layout \<Rightarrow> flowtext list \<Rightarrow> layout result" where
  "Layout_append_paragraphs self paragraphs =
     (case fill_columns self paragraphs of
        Inl e \<Rightarrow> Inl e
      | Inr (self', None) \<Rightarrow> Inr self'
      | Inr (self', Some remainer) \<Rightarrow> create_columns self' remainer)"


subsection \<open>Rendering of the container classes\<close>

text \<open>
  \<^verbatim>\<open>Container.render_content(m)\<close> is \<^verbatim>\<open>for entity in self: yield from entity.render(m)\<close>: the
  call \<^verbatim>\<open>entity.render(m)\<close> returns a generator and \<^verbatim>\<open>yield from\<close> consumes it at once. The
  entities of a paragraph are its lines, of which there are none (see \<open>place_lines\<close>);
  those of a column are its paragraphs and those of a layout its columns.
\<close>

definition render_lines :: "line list \<Rightarrow> Matrix44 option \<Rightarrow> draw option list result" where
  "render_lines lines m =
     (case lines of [] \<Rightarrow> Inr [] | line # _ \<Rightarrow> Inl abstract_class_Line)"

definition FlowText_render_content :: "flowtext \<Rightarrow> Matrix44 option \<Rightarrow> draw option list result" where
  "FlowText_render_content self m = render_lines (ft_lines self) m"

definition FlowText_render_consume :: "render_generator \<Rightarrow> flowtext \<Rightarrow> draw option list result" where
  "FlowText_render_consume g self =
     Container_render_consume (FlowText_total_width self) (FlowText_total_height self)
       FlowText_place_content FlowText_render_content g self"

definition Column_render_content :: "column \<Rightarrow> Matrix44 option \<Rightarrow> draw option list result" where
  "Column_render_content self m =
     bind_result
       (map_result (\<lambda>p. bind_result (Container_render p m) (\<lambda>g. FlowText_render_consume g p))
          (col_paragraphs self))
       (\<lambda>dss. Inr (concat dss))"

definition Column_render_consume :: "render_generator \<Rightarrow> column \<Rightarrow> draw option list result" where
  "Column_render_consume g self =
     Container_render_consume (Column_total_width self) (Column_total_height self)
       Column_place_content Column_render_content g self"

definition Layout_render_content :: "layout \<Rightarrow> Matrix44 option \<Rightarrow> draw option list result" where
  "Layout_render_content self m =
     bind_result
       (map_result (\<lambda>c. bind_result (Container_render c m) (\<lambda>g. Column_render_consume g c))
          (lay_columns self))
       (\<lambda>dss. Inr (concat dss))"

definition Layout_render_consume :: "render_generator \<Rightarrow> layout \<Rightarrow> draw option list result" where
  "Layout_render_consume g self =
     Container_render_consume (Layout_total_width self) (Layout_total_height self)
       Layout_place_content Layout_render_content g self"

subsection \<open>Sums of Python floats\<close>

text \<open>
  A Python float is an IEEE 754 binary64 number. The finite floats are the numbers
  \<open>k / 2 ^ 1074\<close> for an integer \<open>k\<close> whose magnitude is below \<open>2 ^ 2098\<close> and has at most 53
  significant bits, that is, is \<open>q * 2 ^ s\<close> with \<open>q < 2 ^ 53\<close>. The sum of two floats is
  their exact sum rounded to the nearest float, and to the one with the even \<open>q\<close> when two
  floats are equally near.
\<close>

text \<open>The number of bits of a natural number.\<close>

fun bit_length :: "nat \<Rightarrow> nat" where
  "bit_length k = (if k = 0 then 0 else Suc (bit_length (k div 2)))"

text \<open>Rounding of a natural number to 53 significant bits, to nearest, ties to even.\<close>

definition round_to_53_bits :: "nat \<Rightarrow> nat" where
  "round_to_53_bits k =
     (let n = bit_length k in
      if n \<le> 53 then k
      else (let s = n - 53; q = k div 2 ^ s; r = k mod 2 ^ s; half = 2 ^ (s - 1) in
            (if r < half \<or> (r = half \<and> even q) then q else q + 1) * 2 ^ s))"

definition round_units :: "int \<Rightarrow> int" where
  "round_units k =
     (if k < 0 then - int (round_to_53_bits (nat (- k))) else int (round_to_53_bits (nat k)))"

definition grid_exponent :: nat where
  "grid_exponent = 1074"

text \<open>
  The sum of the floats \<open>a\<close> and \<open>b\<close>, given by their values. The exact sum of two floats is
  an integer multiple of \<open>1 / 2 ^ 1074\<close>. A sum of magnitude \<open>2 ^ 1024\<close> or more is \<open>inf\<close> in
  Python and has no float as its value here.
\<close>

definition float_add :: "real \<Rightarrow> real \<Rightarrow> real" where
  "float_add a b =
     real_of_int (round_units \<lfloor>(a + b) * 2 ^ grid_exponent\<rfloor>) / 2 ^ grid_exponent"

text \<open>
  \<open>py_add\<close>, \<open>py_add3\<close>, \<^verbatim>\<open>Container.total_width\<close> and \<^verbatim>\<open>Container.total_height\<close> once more, with
  the addition of the numbers as the argument \<open>add\<close>: exact addition gives the
  definitions above (\<open>Container_total_width_exact\<close> below), \<open>float_add\<close> gives the sizes
  as Python computes them on floats.
\<close>

definition py_add_with ::
  "(real \<Rightarrow> real \<Rightarrow> real) \<Rightarrow> real option \<Rightarrow> real \<Rightarrow> real result" where
  "py_add_with add a b =
     (case a of
        None \<Rightarrow> Inl (TypeError ''unsupported operand type(s) for +: NoneType and float'')
      | Some v \<Rightarrow> Inr (add v b))"

definition py_add3_with ::
  "(real \<Rightarrow> real \<Rightarrow> real) \<Rightarrow> real option result \<Rightarrow> real result \<Rightarrow> real result \<Rightarrow>
     real result" where
  "py_add3_with add a b c =
     bind_result a (\<lambda>x. bind_result b (\<lambda>y. bind_result (py_add_with add x y) (\<lambda>s.
       bind_result c (\<lambda>z. Inr (add s z)))))"

definition Container_total_width_with ::
  "(real \<Rightarrow> real \<Rightarrow> real) \<Rightarrow> real option result \<Rightarrow> 'a container_scheme \<Rightarrow> real result" where
  "Container_total_width_with add content_width self =
     py_add3_with add content_width (right_margin self) (left_margin self)"

definition Container_total_height_with ::
  "(real \<Rightarrow> real \<Rightarrow> real) \<Rightarrow> real result \<Rightarrow> 'a container_scheme \<Rightarrow> real result" where
  "Container_total_height_with add content_height self =
     py_add3_with add (bind_result content_height (\<lambda>h. Inr (Some h)))
       (top_margin self) (bottom_margin self)"

text \<open>The \<^verbatim>\<open>total_width\<close> of a paragraph; \<^verbatim>\<open>FlowText\<close> inherits \<^verbatim>\<open>content_width\<close>.\<close>

definition FlowText_total_width_with :: "(real \<Rightarrow> real \<Rightarrow> real) \<Rightarrow> flowtext \<Rightarrow> real result" where
  "FlowText_total_width_with add self =
     Container_total_width_with add (Inr (Some (Container_content_width self))) self"

section \<open>Properties\<close>

subsection \<open>Auxiliary definitions\<close>

text \<open>The class of the first cell of a list, \<open>None\<close> for the empty list.\<close>

definition next_type :: "cell list \<Rightarrow> cell_class option" where
  "next_type cs = (case cs of [] \<Rightarrow> None | d # _ \<Rightarrow> Some (cell_type d))"

text \<open>
  The loop of \<^verbatim>\<open>normalize_cells\<close> as a recursion over the cells that are left, without the
  index and the accumulator; \<open>normalize_loop_norm_rec\<close> below proves that it computes what
  \<open>normalize_loop\<close> computes.
\<close>

fun norm_rec :: "cell_class option \<Rightarrow> cell list \<Rightarrow> cell list result" where
  "norm_rec prev [] = Inr []"
| "norm_rec prev (c # cs) =
     (if cell_type c \<in> content_types then
        (if in_content prev then Inl (ValueError ''no glue between content cells'')
         else bind_result (norm_rec (Some (cell_type c)) cs) (\<lambda>r. Inr (c # r)))
      else if cell_type c = SoftHyphen \<and>
              (prev = Some SoftHyphen \<or> \<not> in_content prev \<or> \<not> in_content (next_type cs))
      then norm_rec prev cs
      else bind_result (norm_rec (Some (cell_type c)) cs) (\<lambda>r. Inr (c # r)))"

text \<open>A sequence contains two adjacent content cells.\<close>

fun adjacent_content :: "cell list \<Rightarrow> bool" where
  "adjacent_content (a # b # cs) =
     ((cell_type a \<in> content_types \<and> cell_type b \<in> content_types) \<or> adjacent_content (b # cs))"
| "adjacent_content cs = False"

text \<open>
  The sequences that the loop leaves as they are when it starts with \<open>prev\<close>: no content
  cell follows a content cell, and every soft hyphen stands between two content cells.
\<close>

fun normal_from :: "cell_class option \<Rightarrow> cell list \<Rightarrow> bool" where
  "normal_from prev [] = True"
| "normal_from prev (c # cs) =
     (if cell_type c \<in> content_types
        then \<not> in_content prev \<and> normal_from (Some (cell_type c)) cs
      else if cell_type c = SoftHyphen
        then in_content prev \<and> in_content (next_type cs) \<and> normal_from (Some SoftHyphen) cs
      else normal_from (Some (cell_type c)) cs)"

subsection \<open>Basic facts\<close>

lemma bind_result_simps [simp]:
  "bind_result (Inl e) f = Inl e"
  "bind_result (Inr v) f = f v"
  by (simp_all add: bind_result_def)

lemma bind_result_assoc:
  "bind_result (bind_result r f) g = bind_result r (\<lambda>v. bind_result (f v) g)"
  by (cases r) simp_all

lemma bind_result_Inr_iff:
  "bind_result r f = Inr w \<longleftrightarrow> (\<exists>v. r = Inr v \<and> f v = Inr w)"
  by (cases r) simp_all

declare remove_pending_glue.simps [simp del]

declare bit_length.simps [simp del]

declare fill_columns.simps [simp del]

declare create_columns.simps [simp del]

lemma SoftHyphen_not_content [simp]: "SoftHyphen \<notin> content_types"
  by (simp add: content_types_def)

lemma in_content_Some [simp]: "in_content (Some t) = (t \<in> content_types)"
  by (simp add: in_content_def)

lemma in_content_None [simp]: "\<not> in_content None"
  by (simp add: in_content_def)

subsection \<open>Margins\<close>

text \<open>
  C3. \<^verbatim>\<open>resolve_margins\<close> expands one to four values like the CSS shorthand and gives four
  zeros for \<open>None\<close>; for the empty sequence it does not give four zeros: no branch is
  taken and the result is Python's \<open>None\<close>.
\<close>

theorem resolve_margins_empty_sequence:
  "resolve_margins (Some []) = None
   \<and> resolve_margins None = Some (0, 0, 0, 0)
   \<and> resolve_margins (Some [1]) = Some (1, 1, 1, 1)
   \<and> resolve_margins (Some [1, 2]) = Some (1, 2, 1, 2)
   \<and> resolve_margins (Some [1, 2, 3]) = Some (1, 2, 3, 2)
   \<and> resolve_margins (Some [1, 2, 3, 4]) = Some (1, 2, 3, 4)"
  by (simp add: resolve_margins_def)

subsection \<open>Normalisation\<close>

lemma peek_append: "peek (xs @ c # cs) (length xs) = next_type cs"
  by (cases cs) (simp_all add: peek_def next_type_def nth_append)

lemma normalize_loop_norm_rec:
  "normalize_loop (xs @ ys) (enumerate (length xs) ys) prev content =
     bind_result (norm_rec prev ys) (\<lambda>r. Inr (content @ r))"
proof (induction ys arbitrary: xs prev content)
  case Nil
  show ?case by simp
next
  case (Cons c cs)
  have step: "normalize_loop (xs @ c # cs) (enumerate (Suc (length xs)) cs) p acc =
      bind_result (norm_rec p cs) (\<lambda>r. Inr (acc @ r))" for p acc
    using Cons.IH [of "xs @ [c]" p acc] by simp
  show ?case
    by (auto simp: step peek_append bind_result_assoc Let_def)
qed

lemma normalize_cells_norm_rec:
  "normalize_cells cells =
     bind_result (norm_rec None cells) (\<lambda>r. Inr (remove_pending_glue r))"
  using normalize_loop_norm_rec [of "[]" cells None "[]"]
  by (simp add: normalize_cells_def bind_result_assoc)

lemma norm_rec_fixed: "normal_from prev cs \<Longrightarrow> norm_rec prev cs = Inr cs"
  by (induction cs arbitrary: prev) (auto split: if_splits)

lemma norm_rec_head:
  "norm_rec prev cs = Inr r \<Longrightarrow> \<not> in_content prev \<Longrightarrow> in_content (next_type cs) \<Longrightarrow>
     next_type r = next_type cs"
  by (cases cs) (auto simp: next_type_def bind_result_def split: if_splits sum.splits)

lemma norm_rec_normal: "norm_rec prev cs = Inr r \<Longrightarrow> normal_from prev r"
proof (induction cs arbitrary: prev r)
  case Nil
  then show ?case by simp
next
  case (Cons c cs)
  show ?case
  proof (cases "cell_type c \<in> content_types")
    case True
    with Cons.prems obtain r' where r': "norm_rec (Some (cell_type c)) cs = Inr r'" "r = c # r'"
      and np: "\<not> in_content prev"
      by (auto simp: bind_result_def split: if_splits sum.splits)
    from Cons.IH [OF r'(1)] True np r'(2) show ?thesis by simp
  next
    case False
    show ?thesis
    proof (cases "cell_type c = SoftHyphen \<and>
              (prev = Some SoftHyphen \<or> \<not> in_content prev \<or> \<not> in_content (next_type cs))")
      case True
      with Cons.prems False have "norm_rec prev cs = Inr r" by simp
      then show ?thesis by (rule Cons.IH)
    next
      case kept: False
      with Cons.prems False obtain r' where
        r': "norm_rec (Some (cell_type c)) cs = Inr r'" "r = c # r'"
        by (auto simp: bind_result_def split: if_splits sum.splits)
      have nf: "normal_from (Some (cell_type c)) r'" by (rule Cons.IH [OF r'(1)])
      show ?thesis
      proof (cases "cell_type c = SoftHyphen")
        case True
        with kept have p: "in_content prev" "in_content (next_type cs)" by auto
        from norm_rec_head [OF r'(1)] True p have "next_type r' = next_type cs" by simp
        with nf p True r'(2) show ?thesis by simp
      next
        case other: False
        with nf False r'(2) show ?thesis by simp
      qed
    qed
  qed
qed

lemma normal_from_butlast:
  "normal_from prev (xs @ [g]) \<Longrightarrow> cell_type g \<in> glue_types \<Longrightarrow> normal_from prev xs"
proof (induction xs arbitrary: prev)
  case Nil
  show ?case by simp
next
  case (Cons c cs)
  have g: "cell_type g \<notin> content_types"
    using Cons.prems(2) by (auto simp: glue_types_def content_types_def)
  have nt: "in_content (next_type (cs @ [g])) \<Longrightarrow> in_content (next_type cs)"
    using g by (cases cs) (simp_all add: next_type_def)
  from Cons.prems(1) have tl: "normal_from (Some (cell_type c)) (cs @ [g])"
    by (auto split: if_splits)
  have "normal_from (Some (cell_type c)) cs"
    by (rule Cons.IH [OF tl Cons.prems(2)])
  with Cons.prems(1) nt show ?case
    by (auto split: if_splits)
qed

lemma normal_from_remove_pending_glue:
  "normal_from prev content \<Longrightarrow> normal_from prev (remove_pending_glue content)"
proof (induction content rule: remove_pending_glue.induct)
  case (1 content)
  show ?case
  proof (cases "content \<noteq> [] \<and> cell_type (last content) \<in> glue_types")
    case True
    then have "content = butlast content @ [last content]" by simp
    with "1.prems" have nf: "normal_from prev (butlast content @ [last content])" by simp
    from True have gl: "cell_type (last content) \<in> glue_types" by simp
    have "normal_from prev (butlast content)"
      by (rule normal_from_butlast [OF nf gl])
    with "1.IH" True show ?thesis
      by (subst remove_pending_glue.simps) simp
  next
    case False
    with "1.prems" show ?thesis
      by (subst remove_pending_glue.simps) auto
  qed
qed

lemma remove_pending_glue_idem:
  "remove_pending_glue (remove_pending_glue content) = remove_pending_glue content"
proof (induction content rule: remove_pending_glue.induct)
  case (1 content)
  show ?case
  proof (cases "content \<noteq> [] \<and> cell_type (last content) \<in> glue_types")
    case True
    then have "remove_pending_glue content = remove_pending_glue (butlast content)"
      by (subst remove_pending_glue.simps) simp
    with "1.IH" True show ?thesis by simp
  next
    case False
    then have "remove_pending_glue content = content"
      by (subst remove_pending_glue.simps) auto
    then show ?thesis by simp
  qed
qed

lemma normal_from_not_adjacent: "normal_from prev cs \<Longrightarrow> \<not> adjacent_content cs"
proof (induction cs arbitrary: prev)
  case Nil
  show ?case by simp
next
  case (Cons c cs)
  from Cons.prems have tl: "normal_from (Some (cell_type c)) cs"
    by (auto split: if_splits)
  then have rest: "\<not> adjacent_content cs" by (rule Cons.IH)
  show ?case
  proof (cases cs)
    case Nil
    then show ?thesis by simp
  next
    case (Cons a l)
    with tl have "cell_type c \<in> content_types \<Longrightarrow> cell_type a \<notin> content_types"
      by (auto split: if_splits)
    with rest Cons show ?thesis by auto
  qed
qed

lemma norm_rec_adjacent:
  "adjacent_content cs \<Longrightarrow>
     norm_rec prev cs = Inl (ValueError ''no glue between content cells'')"
proof (induction cs arbitrary: prev rule: adjacent_content.induct)
  case (1 a b cs)
  show ?case
  proof (cases "cell_type a \<in> content_types \<and> cell_type b \<in> content_types")
    case True
    then show ?thesis by simp
  next
    case False
    with "1.prems" have adj: "adjacent_content (b # cs)" by simp
    have "norm_rec p (b # cs) = Inl (ValueError ''no glue between content cells'')" for p
      using adj by (rule "1.IH")
    then show ?thesis
      by (simp del: norm_rec.simps(2) add: norm_rec.simps(2) [of _ a])
  qed
qed simp_all

lemma normalize_cells_normal:
  assumes "normalize_cells cells = Inr out"
  shows "normal_from None out"
proof -
  from assms obtain r where r: "norm_rec None cells = Inr r" "out = remove_pending_glue r"
    by (auto simp: normalize_cells_norm_rec bind_result_def split: sum.splits)
  show ?thesis
    unfolding r(2) by (rule normal_from_remove_pending_glue [OF norm_rec_normal [OF r(1)]])
qed

lemma normalize_cells_remove_pending_glue:
  assumes "normalize_cells cells = Inr out"
  shows "remove_pending_glue out = out"
proof -
  from assms obtain r where "out = remove_pending_glue r"
    by (auto simp: normalize_cells_norm_rec bind_result_def split: sum.splits)
  then show ?thesis by (simp add: remove_pending_glue_idem)
qed

text \<open>
  C4. \<^verbatim>\<open>normalize_cells\<close> raises the \<^verbatim>\<open>ValueError\<close> "no glue between content cells" when
  its input contains two adjacent content cells, and a sequence that it returns never
  contains two adjacent content cells.
\<close>

theorem normalize_cells_content_adjacency:
  "(adjacent_content cells \<longrightarrow>
      normalize_cells cells = Inl (ValueError ''no glue between content cells''))
   \<and> (\<forall>out. normalize_cells cells = Inr out \<longrightarrow> \<not> adjacent_content out)"
proof (intro conjI impI allI)
  assume "adjacent_content cells"
  then show "normalize_cells cells = Inl (ValueError ''no glue between content cells'')"
    by (simp add: normalize_cells_norm_rec norm_rec_adjacent)
next
  fix out
  assume "normalize_cells cells = Inr out"
  then have "normal_from None out" by (rule normalize_cells_normal)
  then show "\<not> adjacent_content out" by (rule normal_from_not_adjacent)
qed

theorem normalize_cells_content_adjacency_witness:
  "adjacent_content [ContentCell_init Text 2 1 7, ContentCell_init Fraction 1 1 8]
   \<and> normalize_cells [ContentCell_init Text 2 1 7, ContentCell_init Fraction 1 1 8]
       = Inl (ValueError ''no glue between content cells'')
   \<and> normalize_cells [ContentCell_init Text 2 1 7, Glue_init SoftHyphen 0 0,
         ContentCell_init Fraction 1 1 8, Glue_init Space 1 0]
       = Inr [ContentCell_init Text 2 1 7, Glue_init SoftHyphen 0 0,
           ContentCell_init Fraction 1 1 8]
   \<and> \<not> adjacent_content [ContentCell_init Text 2 1 7, Glue_init SoftHyphen 0 0,
           ContentCell_init Fraction 1 1 8]"
proof -
  have adj: "adjacent_content [ContentCell_init Text 2 1 7, ContentCell_init Fraction 1 1 8]"
    by (simp add: ContentCell_init_def content_types_def)
  have run: "normalize_cells [ContentCell_init Text 2 1 7, Glue_init SoftHyphen 0 0,
         ContentCell_init Fraction 1 1 8, Glue_init Space 1 0]
       = Inr [ContentCell_init Text 2 1 7, Glue_init SoftHyphen 0 0,
           ContentCell_init Fraction 1 1 8]"
    by code_simp
  from adj run
    normalize_cells_content_adjacency
      [of "[ContentCell_init Text 2 1 7, ContentCell_init Fraction 1 1 8]"]
    normalize_cells_content_adjacency
      [of "[ContentCell_init Text 2 1 7, Glue_init SoftHyphen 0 0,
            ContentCell_init Fraction 1 1 8, Glue_init Space 1 0]"]
  show ?thesis by blast
qed

text \<open>
  C5. \<^verbatim>\<open>normalize_cells\<close> is idempotent: when it returns a sequence for \<open>S\<close>, it returns
  that same sequence again when it is applied to it.
\<close>

theorem normalize_cells_idempotent:
  assumes "normalize_cells S = Inr T"
  shows "normalize_cells T = Inr T"
proof -
  have "normal_from None T" using assms by (rule normalize_cells_normal)
  then have "norm_rec None T = Inr T" by (rule norm_rec_fixed)
  moreover have "remove_pending_glue T = T"
    using assms by (rule normalize_cells_remove_pending_glue)
  ultimately show ?thesis
    by (simp add: normalize_cells_norm_rec)
qed

theorem normalize_cells_idempotent_witness:
  "normalize_cells [Glue_init Space 1 0, ContentCell_init Text 2 1 7, Glue_init SoftHyphen 0 0,
       Glue_init SoftHyphen 0 0, ContentCell_init Fraction 1 1 8, Glue_init SoftHyphen 0 0,
       Glue_init Space 1 0, Glue_init Tab 1 0]
     = Inr [Glue_init Space 1 0, ContentCell_init Text 2 1 7, Glue_init SoftHyphen 0 0,
         ContentCell_init Fraction 1 1 8]
   \<and> normalize_cells [Glue_init Space 1 0, ContentCell_init Text 2 1 7,
         Glue_init SoftHyphen 0 0, ContentCell_init Fraction 1 1 8]
     = Inr [Glue_init Space 1 0, ContentCell_init Text 2 1 7, Glue_init SoftHyphen 0 0,
         ContentCell_init Fraction 1 1 8]"
proof -
  have run: "normalize_cells [Glue_init Space 1 0, ContentCell_init Text 2 1 7,
       Glue_init SoftHyphen 0 0, Glue_init SoftHyphen 0 0, ContentCell_init Fraction 1 1 8,
       Glue_init SoftHyphen 0 0, Glue_init Space 1 0, Glue_init Tab 1 0]
     = Inr [Glue_init Space 1 0, ContentCell_init Text 2 1 7, Glue_init SoftHyphen 0 0,
         ContentCell_init Fraction 1 1 8]"
    by code_simp
  from run normalize_cells_idempotent [OF run] show ?thesis by simp
qed


subsection \<open>Sizes of containers\<close>

lemma py_add3_values: "py_add3 (Inr (Some a)) (Inr b) (Inr c) = Inr (a + b + c)"
  by (simp add: py_add3_def py_add_def)

lemma py_add3_exact: "py_add3 a b c = py_add3_with (+) a b c"
  by (simp add: py_add3_def py_add3_with_def py_add_def py_add_with_def)

lemma Container_total_width_exact:
  "Container_total_width content_width self = Container_total_width_with (+) content_width self"
  by (simp add: Container_total_width_def Container_total_width_with_def py_add3_exact)

lemma Container_total_height_exact:
  "Container_total_height content_height self =
     Container_total_height_with (+) content_height self"
  by (simp add: Container_total_height_def Container_total_height_with_def py_add3_exact)

lemma bit_length_0 [simp]: "bit_length 0 = 0"
  by (simp add: bit_length.simps)

lemma bit_length_double: "0 < k \<Longrightarrow> bit_length (2 * k) = Suc (bit_length k)"
  by (subst bit_length.simps) simp

lemma bit_length_scale: "0 < k \<Longrightarrow> bit_length (k * 2 ^ j) = bit_length k + j"
proof (induction j)
  case 0
  show ?case by simp
next
  case (Suc j)
  have "bit_length (k * 2 ^ Suc j) = bit_length (2 * (k * 2 ^ j))"
    by (simp add: mult.commute mult.left_commute)
  also have "\<dots> = Suc (bit_length (k * 2 ^ j))"
    using Suc.prems by (intro bit_length_double) simp
  finally show ?case using Suc by simp
qed

text \<open>Rounding only looks at the leading bits: it commutes with a shift to the left.\<close>

lemma round_to_53_bits_scale: "round_to_53_bits (k * 2 ^ j) = round_to_53_bits k * 2 ^ j"
proof (cases "k = 0")
  case True
  then show ?thesis by (simp add: round_to_53_bits_def)
next
  case False
  then have pos: "0 < k" by simp
  define n where "n = bit_length k"
  have bl: "bit_length (k * 2 ^ j) = n + j"
    using pos by (simp add: bit_length_scale n_def)
  show ?thesis
  proof (cases "n \<le> 53")
    case small: True
    then have rhs: "round_to_53_bits k = k"
      by (simp add: round_to_53_bits_def Let_def n_def)
    show ?thesis
    proof (cases "n + j \<le> 53")
      case True
      then have "round_to_53_bits (k * 2 ^ j) = k * 2 ^ j"
        by (simp add: round_to_53_bits_def bl Let_def)
      then show ?thesis by (simp add: rhs)
    next
      case False
      define s where "s = n + j - 53"
      from False small have s: "0 < s" "s \<le> j" by (simp_all add: s_def)
      have split: "k * 2 ^ j = (k * 2 ^ (j - s)) * 2 ^ s"
        using s by (simp add: power_add [symmetric] mult.assoc)
      have q: "(k * 2 ^ j) div 2 ^ s = k * 2 ^ (j - s)"
        by (subst split) simp
      have r: "(k * 2 ^ j) mod 2 ^ s = 0"
        by (subst split) simp
      from False s have "round_to_53_bits (k * 2 ^ j) = k * 2 ^ (j - s) * 2 ^ s"
        by (simp add: round_to_53_bits_def bl Let_def s_def [symmetric] q r)
      then show ?thesis by (simp add: rhs split [symmetric])
    qed
  next
    case large: False
    define s where "s = n - 53"
    from large have s: "0 < s" by (simp add: s_def)
    have s': "n + j - 53 = s + j" using large by (simp add: s_def)
    have q: "(k * 2 ^ j) div 2 ^ (s + j) = k div 2 ^ s"
      by (simp add: power_add)
    have r: "(k * 2 ^ j) mod 2 ^ (s + j) = (k mod 2 ^ s) * 2 ^ j"
      by (simp add: power_add)
    have half: "(2::nat) ^ (s + j - 1) = 2 ^ (s - 1) * 2 ^ j"
      using s by (simp add: power_add [symmetric])
    from large have lhs: "round_to_53_bits (k * 2 ^ j) =
        (if k mod 2 ^ s * 2 ^ j < 2 ^ (s - 1) * 2 ^ j
            \<or> (k mod 2 ^ s * 2 ^ j = 2 ^ (s - 1) * 2 ^ j \<and> even (k div 2 ^ s))
         then k div 2 ^ s else k div 2 ^ s + 1) * 2 ^ (s + j)"
      unfolding round_to_53_bits_def Let_def bl s' q r half by simp
    from large have rhs: "round_to_53_bits k =
        (if k mod 2 ^ s < 2 ^ (s - 1) \<or> (k mod 2 ^ s = 2 ^ (s - 1) \<and> even (k div 2 ^ s))
         then k div 2 ^ s else k div 2 ^ s + 1) * 2 ^ s"
      unfolding round_to_53_bits_def Let_def n_def [symmetric] s_def [symmetric] by simp
    show ?thesis
      by (simp add: lhs rhs power_add)
  qed
qed

lemma round_units_scale: "round_units (k * 2 ^ j) = round_units k * 2 ^ j"
proof (cases "k < 0")
  case True
  then have neg: "k * 2 ^ j < 0" by (simp add: mult_less_0_iff)
  have "nat ((- k) * 2 ^ j) = nat (- k) * nat (2 ^ j)"
    using True by (intro nat_mult_distrib) simp
  then have "nat (- (k * 2 ^ j)) = nat (- k) * 2 ^ j"
    by (simp add: nat_power_eq)
  with True neg show ?thesis
    by (simp add: round_units_def round_to_53_bits_scale)
next
  case False
  then have nonneg: "\<not> k * 2 ^ j < 0" by (simp add: mult_less_0_iff)
  have "nat (k * 2 ^ j) = nat k * nat (2 ^ j)"
    using False by (intro nat_mult_distrib) simp
  then have "nat (k * 2 ^ j) = nat k * 2 ^ j"
    by (simp add: nat_power_eq)
  with False nonneg show ?thesis
    by (simp add: round_units_def round_to_53_bits_scale)
qed

text \<open>
  The sum of two floats that are multiples of \<open>1 / 2 ^ n\<close> can be rounded on that coarser
  grid.
\<close>

lemma float_add_dyadic:
  assumes "n \<le> grid_exponent" and "(a + b) * 2 ^ n = real_of_int k"
  shows "float_add a b = real_of_int (round_units k) / 2 ^ n"
proof -
  define j where "j = grid_exponent - n"
  have p: "(2::real) ^ grid_exponent = 2 ^ n * 2 ^ j"
    using assms(1) by (simp add: j_def power_add [symmetric])
  have "(a + b) * 2 ^ grid_exponent = ((a + b) * 2 ^ n) * 2 ^ j"
    by (simp add: p)
  also have "\<dots> = real_of_int (k * 2 ^ j)"
    by (simp add: assms(2))
  finally have "\<lfloor>(a + b) * 2 ^ grid_exponent\<rfloor> = k * 2 ^ j"
    by (metis floor_of_int)
  then show ?thesis
    by (simp add: float_add_def round_units_scale p)
qed

text \<open>
  The four sums of the floats 10.0, 0.1 (\<open>3602879701896397 / 2 ^ 55\<close>) and 2.2
  (\<open>2476979795053773 / 2 ^ 50\<close>) that the two orders of the summands need.
\<close>

lemma float_add_10_right: "float_add 10 (3602879701896397 / 2 ^ 55) = 5685794529555251 / 2 ^ 49"
proof -
  have "float_add 10 (3602879701896397 / 2 ^ 55)
      = real_of_int (round_units 363890849891536077) / 2 ^ 55"
    by (rule float_add_dyadic) (simp_all add: grid_exponent_def)
  also have "round_units 363890849891536077 = 5685794529555251 * 2 ^ 6"
    by (simp add: round_units_def round_to_53_bits_def bit_length.simps Let_def)
  finally show ?thesis by simp
qed

lemma float_add_10_right_left:
  "float_add (5685794529555251 / 2 ^ 49) (2476979795053773 / 2 ^ 50)
     = 6924284427082138 / 2 ^ 49"
proof -
  have "float_add (5685794529555251 / 2 ^ 49) (2476979795053773 / 2 ^ 50)
      = real_of_int (round_units 27697137708328550) / 2 ^ 51"
    by (rule float_add_dyadic) (simp_all add: grid_exponent_def)
  also have "round_units 27697137708328550 = 6924284427082138 * 2 ^ 2"
    by (simp add: round_units_def round_to_53_bits_def bit_length.simps Let_def)
  finally show ?thesis by simp
qed

lemma float_add_10_left: "float_add 10 (2476979795053773 / 2 ^ 50) = 6867989431740006 / 2 ^ 49"
proof -
  have "float_add 10 (2476979795053773 / 2 ^ 50)
      = real_of_int (round_units 27471957726960026) / 2 ^ 51"
    by (rule float_add_dyadic) (simp_all add: grid_exponent_def)
  also have "round_units 27471957726960026 = 6867989431740006 * 2 ^ 2"
    by (simp add: round_units_def round_to_53_bits_def bit_length.simps Let_def)
  finally show ?thesis by simp
qed

lemma float_add_10_left_right:
  "float_add (6867989431740006 / 2 ^ 49) (3602879701896397 / 2 ^ 55)
     = 6924284427082137 / 2 ^ 49"
proof -
  have "float_add (6867989431740006 / 2 ^ 49) (3602879701896397 / 2 ^ 55)
      = real_of_int (round_units 443154203333256781) / 2 ^ 55"
    by (rule float_add_dyadic) (simp_all add: grid_exponent_def)
  also have "round_units 443154203333256781 = 6924284427082137 * 2 ^ 6"
    by (simp add: round_units_def round_to_53_bits_def bit_length.simps Let_def)
  finally show ?thesis by simp
qed

text \<open>
  C6. The equation for \<^verbatim>\<open>total_width\<close>, as the specification states it, fails on floats.
  The paragraph
  \<^verbatim>\<open>FlowText(10.0, margins=[0, 0.1, 0, 2.2])\<close> has the content width 10.0, the right margin
  0.1 and the left margin 2.2. Its \<^verbatim>\<open>total_width\<close> is \<open>(10.0 + 0.1) + 2.2\<close>, the float 12.3
  (\<open>6924284427082138 / 2 ^ 49\<close>), and \<^verbatim>\<open>content_width + left_margin + right_margin\<close> is
  \<open>(10.0 + 2.2) + 0.1\<close>, the float 12.299999999999999 (\<open>6924284427082137 / 2 ^ 49\<close>).
\<close>

theorem total_width_summand_order_counterexample:
  "FlowText_total_width_with float_add
       (projr (FlowText_init (Some 10) 0 (0, 0, 0) 1 None
          (Some [0, 3602879701896397 / 2 ^ 55, 0, 2476979795053773 / 2 ^ 50]) None))
     = Inr (6924284427082138 / 2 ^ 49)
   \<and> py_add3_with float_add
       (Inr (Some (Container_content_width
          (projr (FlowText_init (Some 10) 0 (0, 0, 0) 1 None
             (Some [0, 3602879701896397 / 2 ^ 55, 0, 2476979795053773 / 2 ^ 50]) None)))))
       (left_margin
          (projr (FlowText_init (Some 10) 0 (0, 0, 0) 1 None
             (Some [0, 3602879701896397 / 2 ^ 55, 0, 2476979795053773 / 2 ^ 50]) None)))
       (right_margin
          (projr (FlowText_init (Some 10) 0 (0, 0, 0) 1 None
             (Some [0, 3602879701896397 / 2 ^ 55, 0, 2476979795053773 / 2 ^ 50]) None)))
     = Inr (6924284427082137 / 2 ^ 49)
   \<and> (6924284427082138 / 2 ^ 49 :: real) \<noteq> 6924284427082137 / 2 ^ 49"
proof -
  have margins: "resolve_margins
        (Some [0, 3602879701896397 / 2 ^ 55, 0, 2476979795053773 / 2 ^ 50])
      = Some (0, 3602879701896397 / 2 ^ 55, 0, 2476979795053773 / 2 ^ 50)"
    by (simp add: resolve_margins_def)
  show ?thesis
    by (simp add: FlowText_total_width_with_def Container_total_width_with_def py_add3_with_def
        py_add_with_def FlowText_init_def Container_init_def container.defs margins
        Container_content_width_def left_margin_def right_margin_def subscript_margins_def
        float_add_10_right float_add_10_right_left float_add_10_left float_add_10_left_right
        del: power_numeral)
qed

text \<open>
  C6. With the summands in the order of the code the equations hold: for a paragraph, a
  column and a layout in any state, \<^verbatim>\<open>total_width\<close> is
  \<^verbatim>\<open>content_width + right_margin + left_margin\<close> and \<^verbatim>\<open>total_height\<close> is
  \<^verbatim>\<open>content_height + top_margin + bottom_margin\<close>, added from left to right in this order,
  with the content size of the container's own class. \<open>py_add3\<close> evaluates such a sum as
  Python does, so the equations also cover the states in which a margin or a size cannot
  be read. The same holds for every addition of the numbers, that of floats among them:
  the sum is \<open>add (add content right) left\<close>.
\<close>

theorem container_total_size:
  "FlowText_total_width p =
     py_add3 (Inr (Some (Container_content_width p))) (right_margin p) (left_margin p)
   \<and> FlowText_total_height p =
     py_add3 (Inr (Some (Container_content_height p))) (top_margin p) (bottom_margin p)
   \<and> Column_total_width c =
     py_add3 (Inr (Some (Container_content_width c))) (right_margin c) (left_margin c)
   \<and> Column_total_height c =
     py_add3 (bind_result (Column_content_height c) (\<lambda>h. Inr (Some h)))
       (top_margin c) (bottom_margin c)
   \<and> Layout_total_width l =
     py_add3 (Layout_content_width l) (right_margin l) (left_margin l)
   \<and> Layout_total_height l =
     py_add3 (bind_result (Layout_content_height l) (\<lambda>h. Inr (Some h)))
       (top_margin l) (bottom_margin l)
   \<and> py_add3 (Inr (Some a)) (Inr b) (Inr d) = Inr (a + b + d)
   \<and> Container_total_width content_width self =
       Container_total_width_with (+) content_width self
   \<and> Container_total_height content_height self =
       Container_total_height_with (+) content_height self
   \<and> Container_total_width_with add content_width self =
       py_add3_with add content_width (right_margin self) (left_margin self)
   \<and> Container_total_height_with add content_height self =
       py_add3_with add (bind_result content_height (\<lambda>h. Inr (Some h)))
         (top_margin self) (bottom_margin self)
   \<and> py_add3_with add (Inr (Some a)) (Inr b) (Inr d) = Inr (add (add a b) d)"
  by (simp add: FlowText_total_width_def FlowText_total_height_def Column_total_width_def
      Column_total_height_def Layout_total_width_def Layout_total_height_def
      Container_total_width_def Container_total_height_def py_add3_values
      Container_total_width_with_def Container_total_height_with_def py_add3_exact
      py_add3_with_def py_add_with_def)

subsection \<open>Placement\<close>

lemma Container_final_location_placed:
  "p_final_x self = Some x \<Longrightarrow> p_final_y self = Some y \<Longrightarrow>
     Container_final_location self = Inr (x, y)"
  by (simp add: Container_final_location_def is_placed_def)

lemma FlowText_place_content_final:
  "FlowText_place_content self = Inr self' \<Longrightarrow>
     p_final_x self' = p_final_x self \<and> p_final_y self' = p_final_y self"
  by (auto simp: FlowText_place_content_def bind_result_Inr_iff)

lemma FlowText_place_final:
  "FlowText_place x y p = Inr p' \<Longrightarrow> Container_final_location p' = Inr (x, y)"
  by (auto simp: FlowText_place_def Container_place_def
      dest!: FlowText_place_content_final intro: Container_final_location_placed)

lemma Column_place_content_final:
  "Column_place_content self = Inr self' \<Longrightarrow>
     p_final_x self' = p_final_x self \<and> p_final_y self' = p_final_y self"
  by (auto simp: Column_place_content_def bind_result_Inr_iff)

lemma Column_place_final:
  "Column_place x y c = Inr c' \<Longrightarrow> Container_final_location c' = Inr (x, y)"
  by (auto simp: Column_place_def Container_place_def
      dest!: Column_place_content_final intro: Container_final_location_placed)

lemma Layout_place_content_final:
  "Layout_place_content self = Inr self' \<Longrightarrow>
     p_final_x self' = p_final_x self \<and> p_final_y self' = p_final_y self"
  by (auto simp: Layout_place_content_def bind_result_Inr_iff)

lemma Layout_place_final:
  assumes "Layout_place x y align self = Inr self'"
  shows "\<exists>w h. Layout_total_width self = Inr w \<and> Layout_total_height self = Inr h
     \<and> Container_final_location self' =
         Inr (x + fst (insert_location align w h), y + snd (insert_location align w h))"
proof -
  from assms obtain w h where w: "Layout_total_width self = Inr w"
    and h: "Layout_total_height self = Inr h"
    and pl: "Container_place Layout_place_content (x + fst (insert_location align w h))
               (y + snd (insert_location align w h)) self = Inr self'"
    by (auto simp: Layout_place_def bind_result_Inr_iff case_prod_beta)
  from pl have "Container_final_location self' =
         Inr (x + fst (insert_location align w h), y + snd (insert_location align w h))"
    by (auto simp: Container_place_def dest!: Layout_place_content_final
        intro: Container_final_location_placed)
  with w h show ?thesis by blast
qed

lemma insert_location_grid:
  assumes "1 \<le> align" "align \<le> 9"
  shows "insert_location align width height =
     (- (real_of_int ((align - 1) mod 3) * width / 2),
      real_of_int ((align - 1) div 3) * height / 2)"
proof -
  from assms have "align = 1 \<or> align = 2 \<or> align = 3 \<or> align = 4 \<or> align = 5 \<or> align = 6
      \<or> align = 7 \<or> align = 8 \<or> align = 9" by arith
  then show ?thesis
    by (elim disjE) (simp_all add: insert_location_def)
qed

text \<open>
  C7. When \<^verbatim>\<open>Layout.place(x, y, align)\<close> returns, the layout is placed at \<open>(x, y)\<close> plus the
  offset that \<^verbatim>\<open>insert_location\<close> gives for its total width and height. For the codes 1 to
  9 the offset is that of a grid of three rows and three columns, numbered row by row:
  0, minus half the width or minus the width to the left, and 0, half the height or the
  height to the top. For the width 10 and the height 20 the codes 1, 5 and 9 give
  \<open>(0, 0)\<close>, \<open>(-5, 10)\<close> and \<open>(-10, 20)\<close>.
\<close>

theorem Layout_place_anchor:
  "(\<forall>self'. Layout_place x y align self = Inr self' \<longrightarrow>
      (\<exists>w h. Layout_total_width self = Inr w \<and> Layout_total_height self = Inr h
         \<and> Container_final_location self' =
             Inr (x + fst (insert_location align w h), y + snd (insert_location align w h))))
   \<and> (1 \<le> align \<and> align \<le> 9 \<longrightarrow>
        insert_location align width height =
          (- (real_of_int ((align - 1) mod 3) * width / 2),
           real_of_int ((align - 1) div 3) * height / 2))
   \<and> insert_location 1 10 20 = (0, 0)
   \<and> insert_location 5 10 20 = (-5, 10)
   \<and> insert_location 9 10 20 = (-10, 20)"
proof (intro conjI allI impI)
  fix self'
  assume "Layout_place x y align self = Inr self'"
  then show "\<exists>w h. Layout_total_width self = Inr w \<and> Layout_total_height self = Inr h
         \<and> Container_final_location self' =
             Inr (x + fst (insert_location align w h), y + snd (insert_location align w h))"
    by (rule Layout_place_final)
next
  assume "1 \<le> align \<and> align \<le> 9"
  then show "insert_location align width height =
          (- (real_of_int ((align - 1) mod 3) * width / 2),
           real_of_int ((align - 1) div 3) * height / 2)"
    by (simp add: insert_location_grid)
qed (simp_all add: insert_location_def)

theorem Layout_place_anchor_witness:
  "Layout_place 3 4 5
       (add_column (Layout_init (Some 10) None None None) None (Some 20) 0 None None)
     = Inr ((add_column (Layout_init (Some 10) None None None) None (Some 20) 0 None None)
         \<lparr> p_final_x := Some (- 2), p_final_y := Some 14,
           lay_columns := [(Column_init (Some 10) (Some 20) 0 None None)
              \<lparr> p_final_x := Some (- 2), p_final_y := Some 14 \<rparr>] \<rparr>)
   \<and> Layout_total_width
       (add_column (Layout_init (Some 10) None None None) None (Some 20) 0 None None) = Inr 10
   \<and> Layout_total_height
       (add_column (Layout_init (Some 10) None None None) None (Some 20) 0 None None) = Inr 20
   \<and> Container_final_location
       ((add_column (Layout_init (Some 10) None None None) None (Some 20) 0 None None)
         \<lparr> p_final_x := Some (- 2), p_final_y := Some 14,
           lay_columns := [(Column_init (Some 10) (Some 20) 0 None None)
              \<lparr> p_final_x := Some (- 2), p_final_y := Some 14 \<rparr>] \<rparr>)
     = Inr (3 + fst (insert_location 5 10 20), 4 + snd (insert_location 5 10 20))
   \<and> (1::int) \<le> 5 \<and> (5::int) \<le> 9
   \<and> insert_location 5 10 20 = (- (real_of_int ((5 - 1) mod 3) * 10 / 2),
        real_of_int ((5 - 1) div 3) * 20 / 2)"
proof -
  have run: "Layout_place 3 4 5
       (add_column (Layout_init (Some 10) None None None) None (Some 20) 0 None None)
     = Inr ((add_column (Layout_init (Some 10) None None None) None (Some 20) 0 None None)
         \<lparr> p_final_x := Some (- 2), p_final_y := Some 14,
           lay_columns := [(Column_init (Some 10) (Some 20) 0 None None)
              \<lparr> p_final_x := Some (- 2), p_final_y := Some 14 \<rparr>] \<rparr>)"
    by code_simp
  have w: "Layout_total_width
       (add_column (Layout_init (Some 10) None None None) None (Some 20) 0 None None) = Inr 10"
    by code_simp
  have h: "Layout_total_height
       (add_column (Layout_init (Some 10) None None None) None (Some 20) 0 None None) = Inr 20"
    by code_simp
  have range: "(1::int) \<le> 5 \<and> (5::int) \<le> 9" by simp
  from run w h range
    Layout_place_anchor [of 3 4 5
      "add_column (Layout_init (Some 10) None None None) None (Some 20) 0 None None" 10 20]
  show ?thesis by auto
qed

text \<open>
  C8. The statement of the specification that calling \<^verbatim>\<open>render()\<close> before \<^verbatim>\<open>place()\<close> fails
  does not hold: the call on a layout that is not placed returns a generator and raises
  nothing, and when the layout is placed before the generator is consumed, consuming it
  succeeds (here it yields the background of the layout).
\<close>

theorem render_call_unplaced_counterexample:
  "\<not> is_placed (Layout_init (Some 10) (Some 20) None (Some 7))
   \<and> Container_render (Layout_init (Some 10) (Some 20) None (Some 7)) None
       = Inr (RenderGenerator None)
   \<and> Container_render (Layout_init (Some 10) (Some 20) None (Some 7)) None
       \<noteq> Inl (ValueError ''Layout has to be placed before rendering'')
   \<and> Layout_place 1 2 1 (Layout_init (Some 10) (Some 20) None (Some 7))
       = Inr ((Layout_init (Some 10) (Some 20) None (Some 7))
               \<lparr> p_final_x := Some 1, p_final_y := Some 2 \<rparr>)
   \<and> Layout_render_consume (RenderGenerator None)
         ((Layout_init (Some 10) (Some 20) None (Some 7))
               \<lparr> p_final_x := Some 1, p_final_y := Some 2 \<rparr>)
       = Inr [Some (RenderCall 7 1 (- 18) 11 2 None)]"
proof -
  have unplaced: "\<not> is_placed (Layout_init (Some 10) (Some 20) None (Some 7))"
    by code_simp
  have call: "Container_render (Layout_init (Some 10) (Some 20) None (Some 7)) None
       = Inr (RenderGenerator None)"
    by (simp add: Container_render_def)
  have placed: "Layout_place 1 2 1 (Layout_init (Some 10) (Some 20) None (Some 7))
       = Inr ((Layout_init (Some 10) (Some 20) None (Some 7))
               \<lparr> p_final_x := Some 1, p_final_y := Some 2 \<rparr>)"
    by code_simp
  have consumed: "Layout_render_consume (RenderGenerator None)
         ((Layout_init (Some 10) (Some 20) None (Some 7))
               \<lparr> p_final_x := Some 1, p_final_y := Some 2 \<rparr>)
       = Inr [Some (RenderCall 7 1 (- 18) 11 2 None)]"
    by (simp add: Layout_render_consume_def Container_render_consume_def
        Container_render_background_def Container_final_location_def is_placed_def
        Layout_init_def Container_init_def container.defs resolve_margins_def
        Layout_total_width_def Layout_total_height_def Container_total_width_def
        Container_total_height_def Layout_content_width_def Layout_content_height_def
        py_add3_def py_add_def left_margin_def right_margin_def top_margin_def
        bottom_margin_def subscript_margins_def Layout_place_content_def
        Layout_render_content_def)
  from unplaced call placed consumed show ?thesis by simp
qed

text \<open>
  C8. For a container that is not placed, \<^verbatim>\<open>final_location\<close> raises the \<^verbatim>\<open>ValueError\<close>
  "Container is not placed."; the call of \<^verbatim>\<open>render\<close> raises nothing and returns a generator,
  and consuming the generator while the container is not placed raises the \<^verbatim>\<open>ValueError\<close>
  "Layout has to be placed before rendering", whatever the class of the container is. A
  paragraph, a column and a layout are not placed when their constructors return (a line
  cannot be constructed), and when \<^verbatim>\<open>place(x, y)\<close> has returned for one of them,
  \<^verbatim>\<open>final_location\<close> returns \<open>(x, y)\<close> (for a layout with its default anchor 1).
\<close>

theorem container_placement_protocol:
  "(\<not> is_placed self \<longrightarrow>
      Container_final_location self = Inl (ValueError ''Container is not placed.'')
      \<and> Container_render_consume total_width total_height place_content render_content
            (RenderGenerator m) self
          = Inl (ValueError ''Layout has to be placed before rendering''))
   \<and> Container_render self m = Inr (RenderGenerator m)
   \<and> (\<not> is_placed p \<longrightarrow>
        FlowText_render_consume (RenderGenerator m) p
          = Inl (ValueError ''Layout has to be placed before rendering''))
   \<and> (\<not> is_placed c \<longrightarrow>
        Column_render_consume (RenderGenerator m) c
          = Inl (ValueError ''Layout has to be placed before rendering''))
   \<and> (\<not> is_placed l \<longrightarrow>
        Layout_render_consume (RenderGenerator m) l
          = Inl (ValueError ''Layout has to be placed before rendering''))
   \<and> Line_init lw la lms lr = Inl abstract_class_Line
   \<and> (\<forall>q. FlowText_init fw fa fi fs ft fms fr = Inr q \<longrightarrow> \<not> is_placed q)
   \<and> \<not> is_placed (Column_init cw ch cg cms cr)
   \<and> \<not> is_placed (Layout_init yw yh yms yr)
   \<and> (\<forall>p'. FlowText_place x y p = Inr p' \<longrightarrow> Container_final_location p' = Inr (x, y))
   \<and> (\<forall>c'. Column_place x y c = Inr c' \<longrightarrow> Container_final_location c' = Inr (x, y))
   \<and> (\<forall>l'. Layout_place x y 1 l = Inr l' \<longrightarrow> Container_final_location l' = Inr (x, y))"
proof (intro conjI allI impI)
  assume "\<not> is_placed self"
  then show "Container_final_location self = Inl (ValueError ''Container is not placed.'')"
    and "Container_render_consume total_width total_height place_content render_content
            (RenderGenerator m) self
          = Inl (ValueError ''Layout has to be placed before rendering'')"
    by (simp_all add: Container_final_location_def Container_render_consume_def)
next
  show "Container_render self m = Inr (RenderGenerator m)"
    by (simp add: Container_render_def)
next
  assume "\<not> is_placed p"
  then show "FlowText_render_consume (RenderGenerator m) p
          = Inl (ValueError ''Layout has to be placed before rendering'')"
    by (simp add: FlowText_render_consume_def Container_render_consume_def)
next
  assume "\<not> is_placed c"
  then show "Column_render_consume (RenderGenerator m) c
          = Inl (ValueError ''Layout has to be placed before rendering'')"
    by (simp add: Column_render_consume_def Container_render_consume_def)
next
  assume "\<not> is_placed l"
  then show "Layout_render_consume (RenderGenerator m) l
          = Inl (ValueError ''Layout has to be placed before rendering'')"
    by (simp add: Layout_render_consume_def Container_render_consume_def)
next
  show "Line_init lw la lms lr = Inl abstract_class_Line"
    by (simp add: Line_init_def)
next
  fix q
  assume "FlowText_init fw fa fi fs ft fms fr = Inr q"
  then show "\<not> is_placed q"
    by (auto simp: FlowText_init_def Container_init_def is_placed_def container.defs
        split: if_splits prod.splits)
next
  show "\<not> is_placed (Column_init cw ch cg cms cr)"
    by (simp add: Column_init_def Container_init_def is_placed_def container.defs)
next
  show "\<not> is_placed (Layout_init yw yh yms yr)"
    by (simp add: Layout_init_def Container_init_def is_placed_def container.defs)
next
  fix p'
  assume "FlowText_place x y p = Inr p'"
  then show "Container_final_location p' = Inr (x, y)" by (rule FlowText_place_final)
next
  fix c'
  assume "Column_place x y c = Inr c'"
  then show "Container_final_location c' = Inr (x, y)" by (rule Column_place_final)
next
  fix l'
  assume "Layout_place x y 1 l = Inr l'"
  from Layout_place_final [OF this]
  show "Container_final_location l' = Inr (x, y)"
    by (auto simp: insert_location_def)
qed

theorem container_placement_protocol_witness:
  "\<not> is_placed (Layout_init (Some 10) (Some 20) None None)
   \<and> Container_final_location (Layout_init (Some 10) (Some 20) None None)
       = Inl (ValueError ''Container is not placed.'')
   \<and> Layout_render_consume (RenderGenerator None) (Layout_init (Some 10) (Some 20) None None)
       = Inl (ValueError ''Layout has to be placed before rendering'')
   \<and> \<not> is_placed (Column_init (Some 10) None 0 None None)
   \<and> Column_render_consume (RenderGenerator None) (Column_init (Some 10) None 0 None None)
       = Inl (ValueError ''Layout has to be placed before rendering'')
   \<and> FlowText_init (Some 10) 0 (0, 0, 0) 1 None None None
       = Inr (projr (FlowText_init (Some 10) 0 (0, 0, 0) 1 None None None))
   \<and> \<not> is_placed (projr (FlowText_init (Some 10) 0 (0, 0, 0) 1 None None None))
   \<and> FlowText_render_consume (RenderGenerator None)
         (projr (FlowText_init (Some 10) 0 (0, 0, 0) 1 None None None))
       = Inl (ValueError ''Layout has to be placed before rendering'')
   \<and> FlowText_place 1 2 (projr (FlowText_init (Some 10) 0 (0, 0, 0) 1 None None None))
       = Inr ((projr (FlowText_init (Some 10) 0 (0, 0, 0) 1 None None None))
               \<lparr> p_final_x := Some 1, p_final_y := Some 2 \<rparr>)
   \<and> Container_final_location
         ((projr (FlowText_init (Some 10) 0 (0, 0, 0) 1 None None None))
               \<lparr> p_final_x := Some 1, p_final_y := Some 2 \<rparr>)
       = Inr (1, 2)
   \<and> Column_place 1 2 (Column_init (Some 10) None 0 None None)
       = Inr ((Column_init (Some 10) None 0 None None)
               \<lparr> p_final_x := Some 1, p_final_y := Some 2 \<rparr>)
   \<and> Container_final_location
         ((Column_init (Some 10) None 0 None None)\<lparr> p_final_x := Some 1, p_final_y := Some 2 \<rparr>)
       = Inr (1, 2)
   \<and> Layout_place 1 2 1 (Layout_init (Some 10) (Some 20) None None)
       = Inr ((Layout_init (Some 10) (Some 20) None None)
               \<lparr> p_final_x := Some 1, p_final_y := Some 2 \<rparr>)
   \<and> Container_final_location
         ((Layout_init (Some 10) (Some 20) None None)
               \<lparr> p_final_x := Some 1, p_final_y := Some 2 \<rparr>)
       = Inr (1, 2)"
proof -
  have unplaced_layout: "\<not> is_placed (Layout_init (Some 10) (Some 20) None None)"
    by code_simp
  have unplaced_column: "\<not> is_placed (Column_init (Some 10) None 0 None None)"
    by code_simp
  have init: "FlowText_init (Some 10) 0 (0, 0, 0) 1 None None None
       = Inr (projr (FlowText_init (Some 10) 0 (0, 0, 0) 1 None None None))"
    by code_simp
  have placed_paragraph:
    "FlowText_place 1 2 (projr (FlowText_init (Some 10) 0 (0, 0, 0) 1 None None None))
       = Inr ((projr (FlowText_init (Some 10) 0 (0, 0, 0) 1 None None None))
               \<lparr> p_final_x := Some 1, p_final_y := Some 2 \<rparr>)"
    by code_simp
  have placed_column: "Column_place 1 2 (Column_init (Some 10) None 0 None None)
       = Inr ((Column_init (Some 10) None 0 None None)
               \<lparr> p_final_x := Some 1, p_final_y := Some 2 \<rparr>)"
    by code_simp
  have placed_layout: "Layout_place 1 2 1 (Layout_init (Some 10) (Some 20) None None)
       = Inr ((Layout_init (Some 10) (Some 20) None None)
               \<lparr> p_final_x := Some 1, p_final_y := Some 2 \<rparr>)"
    by code_simp
  from unplaced_layout unplaced_column init placed_paragraph placed_column placed_layout
    container_placement_protocol
      [where self = "Layout_init (Some 10) (Some 20) None None"
         and total_width = "Layout_total_width (Layout_init (Some 10) (Some 20) None None)"
         and total_height = "Layout_total_height (Layout_init (Some 10) (Some 20) None None)"
         and place_content = Layout_place_content
         and render_content = Layout_render_content
         and m = None
         and lw = "Some 10" and la = 0 and lms = None and lr = None
         and fw = "Some 10" and fa = 0 and fi = "(0, 0, 0)" and fs = 1 and ft = None
         and fms = None and fr = None
         and cw = "Some 10" and ch = None and cg = 0 and cms = None and cr = None
         and yw = "Some 10" and yh = "Some 20" and yms = None and yr = None
         and x = 1 and y = 2
         and p = "projr (FlowText_init (Some 10) 0 (0, 0, 0) 1 None None None)"
         and c = "Column_init (Some 10) None 0 None None"
         and l = "Layout_init (Some 10) (Some 20) None None"]
  show ?thesis by blast
qed

text \<open>
  C9. The \<^verbatim>\<open>final_location\<close> of a content cell (\<open>Text\<close> or \<open>Fraction\<close>) that has been
  constructed and not placed does not raise: it returns \<open>(None, None)\<close>. The
  \<^verbatim>\<open>final_location\<close> of a container that has been constructed and not placed raises the
  \<^verbatim>\<open>ValueError\<close> "Container is not placed.".
\<close>

theorem ContentCell_final_location_unplaced:
  "ContentCell_final_location (ContentCell_init Text width height renderer) = (None, None)
   \<and> ContentCell_final_location (ContentCell_init Fraction width height renderer) = (None, None)
   \<and> Container_final_location (Container_init cw ch margins render)
       = Inl (ValueError ''Container is not placed.'')"
  by (simp add: ContentCell_final_location_def ContentCell_init_def
      Container_final_location_def Container_init_def is_placed_def)

subsection \<open>Appending paragraphs\<close>

text \<open>
  C1. The specification lets \<^verbatim>\<open>append_paragraphs\<close> of a column of flexible height
  distribute every paragraph, append all of them and return an empty remainder. The code calls
  \<^verbatim>\<open>p.freeze()\<close> on the first paragraph, a method that no paragraph has: for a column of
  flexible height and a list of at least one paragraph the call ends in \<^verbatim>\<open>AttributeError\<close>,
  and nothing is appended or returned.
\<close>

theorem Column_append_paragraphs_freeze:
  "Column_append_paragraphs (Column_init width None gutter margins render) (p # ps)
     = Inl (AttributeError ''FlowText object has no attribute freeze'')"
  by (simp add: Column_append_paragraphs_def Column_init_def Container_init_def
      has_flex_height_def freeze_def container.defs)

text \<open>
  C2. The specification lets \<^verbatim>\<open>distribute_content\<close>, for a paragraph with raw content and a
  finite height budget, produce lines until the budget is used up and return the raw cells
  that are left. The code produces no line and returns \<open>None\<close>: the lines and the raw
  cells of the paragraph are what they were before the call.
\<close>

theorem FlowText_distribute_content_stub:
  "snd (FlowText_distribute_content (FlowText_append_content p (c # cs)) (Some height)) = None
   \<and> ft_lines (fst (FlowText_distribute_content (FlowText_append_content p (c # cs))
        (Some height))) = ft_lines p
   \<and> ft_cells (fst (FlowText_distribute_content (FlowText_append_content p (c # cs))
        (Some height))) = ft_cells p @ c # cs"
  by (simp add: FlowText_distribute_content_def FlowText_append_content_def)

lemma Column_append_paragraphs_result:
  assumes "Column_append_paragraphs c ps = Inr (c', r)"
  shows "c' = c \<and> r = []"
proof (cases "has_flex_height c")
  case True
  with assms obtain frozen where fr: "map_result freeze ps = Inr frozen"
    and c': "c' = c\<lparr> col_paragraphs := col_paragraphs c @ frozen \<rparr>" and r: "r = []"
    by (auto simp: Column_append_paragraphs_def bind_result_Inr_iff)
  from fr have "frozen = []"
    by (cases ps) (simp_all add: freeze_def)
  with c' r show ?thesis by simp
next
  case False
  with assms show ?thesis
    by (simp add: Column_append_paragraphs_def)
qed

lemma fill_columns_result:
  assumes "fill_columns self ps = Inr (self', res)"
  shows "self' = self \<and>
     (res = None \<or> (res = Some ps \<and> \<not> lay_current_column self < length (lay_columns self)))"
proof (cases "lay_current_column self < length (lay_columns self)")
  case True
  from assms True obtain c' r where
    ap: "Column_append_paragraphs (lay_columns self ! lay_current_column self) ps = Inr (c', r)"
    by (subst (asm) fill_columns.simps) (auto split: sum.splits)
  from Column_append_paragraphs_result [OF ap]
  have c': "c' = lay_columns self ! lay_current_column self" and r: "r = []" by simp_all
  from assms True ap c' r show ?thesis
    by (subst (asm) fill_columns.simps) simp
next
  case False
  with assms show ?thesis
    by (subst (asm) fill_columns.simps) simp
qed

lemma new_column_result:
  assumes "new_column self = Inr self'"
  shows "lay_columns self \<noteq> [] \<and> (\<exists>c. clone_empty (last (lay_columns self)) = Inr c
     \<and> self' = self\<lparr> lay_columns := lay_columns self @ [c] \<rparr>)"
  using assms by (auto simp: new_column_def bind_result_Inr_iff split: if_splits)

lemma create_columns_result:
  assumes "create_columns self ps = Inr self'"
  shows "lay_columns self' = lay_columns self \<or>
     (lay_columns self \<noteq> [] \<and> (\<exists>c. clone_empty (last (lay_columns self)) = Inr c
        \<and> lay_columns self' = lay_columns self @ [c]))"
proof (cases "ps = []")
  case True
  with assms show ?thesis
    by (subst (asm) create_columns.simps) simp
next
  case False
  from assms False obtain self1 where n: "new_column self = Inr self1"
    by (subst (asm) create_columns.simps) (auto split: sum.splits)
  from new_column_result [OF n] obtain c where ne: "lay_columns self \<noteq> []"
    and cl: "clone_empty (last (lay_columns self)) = Inr c"
    and s1: "self1 = self\<lparr> lay_columns := lay_columns self @ [c] \<rparr>" by blast
  from assms False n s1 obtain c' r where
    ap: "Column_append_paragraphs c ps = Inr (c', r)"
    by (subst (asm) create_columns.simps) (auto simp: Let_def split: sum.splits)
  from Column_append_paragraphs_result [OF ap] have c': "c' = c" and r: "r = []" by simp_all
  from assms False n s1 ap c' r have "lay_columns self' = lay_columns self @ [c]"
    by (subst (asm) create_columns.simps)
      (auto simp: Let_def create_columns.simps [of _ "[]"] split: if_splits)
  with ne cl show ?thesis by blast
qed

text \<open>
  C10. \<^verbatim>\<open>Layout.append_paragraphs\<close> on a layout without columns and with at least one
  paragraph raises the \<^verbatim>\<open>ValueError\<close> "no column exist"; it creates no first column. A
  column is only ever added as the \<^verbatim>\<open>clone_empty\<close> of the column that was the last one:
  this is what \<^verbatim>\<open>_new_column\<close> does when it returns, and when \<^verbatim>\<open>append_paragraphs\<close> returns,
  the columns of the layout are those it had, or those followed by such a clone.
\<close>

theorem Layout_append_paragraphs_no_column:
  "(lay_columns self = [] \<and> paragraphs \<noteq> [] \<longrightarrow>
      Layout_append_paragraphs self paragraphs = Inl (ValueError ''no column exist''))
   \<and> (\<forall>self'. new_column self = Inr self' \<longrightarrow>
        lay_columns self \<noteq> [] \<and>
        (\<exists>c. clone_empty (last (lay_columns self)) = Inr c
           \<and> lay_columns self' = lay_columns self @ [c]))
   \<and> (\<forall>self'. Layout_append_paragraphs self paragraphs = Inr self' \<longrightarrow>
        lay_columns self' = lay_columns self \<or>
        (lay_columns self \<noteq> [] \<and>
         (\<exists>c. clone_empty (last (lay_columns self)) = Inr c
            \<and> lay_columns self' = lay_columns self @ [c])))"
proof (intro conjI impI allI)
  assume "lay_columns self = [] \<and> paragraphs \<noteq> []"
  then show "Layout_append_paragraphs self paragraphs = Inl (ValueError ''no column exist'')"
    by (simp add: Layout_append_paragraphs_def fill_columns.simps create_columns.simps
        new_column_def)
next
  fix self'
  assume "new_column self = Inr self'"
  from new_column_result [OF this]
  show "lay_columns self \<noteq> []"
    and "\<exists>c. clone_empty (last (lay_columns self)) = Inr c
           \<and> lay_columns self' = lay_columns self @ [c]"
    by auto
next
  fix self'
  assume a: "Layout_append_paragraphs self paragraphs = Inr self'"
  then obtain s res where f: "fill_columns self paragraphs = Inr (s, res)"
    by (auto simp: Layout_append_paragraphs_def split: sum.splits)
  from fill_columns_result [OF f] have s: "s = self" by simp
  show "lay_columns self' = lay_columns self \<or>
        (lay_columns self \<noteq> [] \<and>
         (\<exists>c. clone_empty (last (lay_columns self)) = Inr c
            \<and> lay_columns self' = lay_columns self @ [c]))"
  proof (cases res)
    case None
    with a f s show ?thesis by (simp add: Layout_append_paragraphs_def)
  next
    case (Some r)
    with a f s have "create_columns self r = Inr self'"
      by (simp add: Layout_append_paragraphs_def)
    then show ?thesis by (rule create_columns_result)
  qed
qed


theorem Layout_append_paragraphs_no_column_witness:
  "lay_columns (Layout_init (Some 10) None None None) = []
   \<and> [projr (FlowText_init (Some 10) 0 (0, 0, 0) 1 None None None)] \<noteq> []
   \<and> Layout_append_paragraphs (Layout_init (Some 10) None None None)
         [projr (FlowText_init (Some 10) 0 (0, 0, 0) 1 None None None)]
       = Inl (ValueError ''no column exist'')
   \<and> new_column
         (add_column (Layout_init (Some 10) None None None) None (Some 20) 0 None None)
       = Inr ((add_column (Layout_init (Some 10) None None None) None (Some 20) 0 None None)
           \<lparr> lay_columns := [Column_init (Some 10) (Some 20) 0 None None,
               Column_init (Some 10) (Some 20) 0 (Some [0, 0, 0, 0]) None] \<rparr>)
   \<and> clone_empty (last (lay_columns
         (add_column (Layout_init (Some 10) None None None) None (Some 20) 0 None None)))
       = Inr (Column_init (Some 10) (Some 20) 0 (Some [0, 0, 0, 0]) None)
   \<and> Layout_append_paragraphs
         (add_column (Layout_init (Some 10) None None None) None (Some 20) 0 None None)
         [projr (FlowText_init (Some 10) 0 (0, 0, 0) 1 None None None)]
       = Inr (add_column (Layout_init (Some 10) None None None) None (Some 20) 0 None None)
   \<and> (\<exists>c. clone_empty (last (lay_columns
         (add_column (Layout_init (Some 10) None None None) None (Some 20) 0 None None)))
           = Inr c
        \<and> lay_columns ((add_column (Layout_init (Some 10) None None None) None (Some 20) 0
             None None)
           \<lparr> lay_columns := [Column_init (Some 10) (Some 20) 0 None None,
               Column_init (Some 10) (Some 20) 0 (Some [0, 0, 0, 0]) None] \<rparr>)
          = lay_columns
              (add_column (Layout_init (Some 10) None None None) None (Some 20) 0 None None)
            @ [c])"
proof -
  have empty: "lay_columns (Layout_init (Some 10) None None None) = []
     \<and> [projr (FlowText_init (Some 10) 0 (0, 0, 0) 1 None None None)] \<noteq> []"
    by (simp add: Layout_init_def container.defs)
  have new: "new_column
         (add_column (Layout_init (Some 10) None None None) None (Some 20) 0 None None)
       = Inr ((add_column (Layout_init (Some 10) None None None) None (Some 20) 0 None None)
           \<lparr> lay_columns := [Column_init (Some 10) (Some 20) 0 None None,
               Column_init (Some 10) (Some 20) 0 (Some [0, 0, 0, 0]) None] \<rparr>)"
    by code_simp
  have clone: "clone_empty (last (lay_columns
         (add_column (Layout_init (Some 10) None None None) None (Some 20) 0 None None)))
       = Inr (Column_init (Some 10) (Some 20) 0 (Some [0, 0, 0, 0]) None)"
    by code_simp
  have append: "Layout_append_paragraphs
         (add_column (Layout_init (Some 10) None None None) None (Some 20) 0 None None)
         [projr (FlowText_init (Some 10) 0 (0, 0, 0) 1 None None None)]
       = Inr (add_column (Layout_init (Some 10) None None None) None (Some 20) 0 None None)"
    by code_simp
  from empty new clone append
    Layout_append_paragraphs_no_column
      [of "Layout_init (Some 10) None None None"
          "[projr (FlowText_init (Some 10) 0 (0, 0, 0) 1 None None None)]"]
    Layout_append_paragraphs_no_column
      [of "add_column (Layout_init (Some 10) None None None) None (Some 20) 0 None None"
          "[projr (FlowText_init (Some 10) 0 (0, 0, 0) 1 None None None)]"]
  show ?thesis by blast
qed

end
